theory Spec2Isabelle
  imports Main
begin

section \<open>ShaderPool\<close>

text \<open>
  The GLSL modules imported by \<^verbatim>\<open>ShaderPool.ts\<close>. Their text is not part of the
  excerpt; each import is a distinct constant.
\<close>

datatype ShaderSource =
    blinnPhongFs | blinnPhongVs
  | pbrFs | pbrVs
  | shadowMapFs | shadowMapVs
  | shadowFs
  | skyboxFs | skyboxVs
  | particleFs | particleVs

definition bindE :: "'e + 'a \<Rightarrow> ('a \<Rightarrow> 'e + 'b) \<Rightarrow> 'e + 'b" where
  "bindE m f = (case m of Inl e \<Rightarrow> Inl e | Inr a \<Rightarrow> f a)"

text \<open>
  \<^verbatim>\<open>ShaderPool.init\<close>. \<^verbatim>\<open>Shader.create\<close> lives outside the excerpt, so it is the
  parameter \<open>create\<close>: it takes the name, the vertex source and the fragment source,
  acts on a registry \<open>'r\<close> and may throw (\<open>Inl\<close>), which ends \<open>init\<close>.
\<close>

definition init ::
  "(string \<Rightarrow> ShaderSource \<Rightarrow> ShaderSource \<Rightarrow> 'r \<Rightarrow> 'e + 'r) \<Rightarrow> 'r \<Rightarrow> 'e + 'r" where
  "init create r0 =
     bindE (create ''blinn-phong'' blinnPhongVs blinnPhongFs r0) (\<lambda>r1.
     bindE (create ''pbr'' pbrVs pbrFs r1) (\<lambda>r2.
     bindE (create ''shadow-map'' shadowMapVs shadowMapFs r2) (\<lambda>r3.
     bindE (create ''shadow'' shadowMapVs shadowFs r3) (\<lambda>r4.
     bindE (create ''skybox'' skyboxVs skyboxFs r4) (\<lambda>r5.
     create ''particle-shader'' particleVs particleFs r5)))))"

text \<open>A \<open>create\<close> that only records the arguments of each call, oldest first.\<close>

definition recordCreate ::
  "string \<Rightarrow> ShaderSource \<Rightarrow> ShaderSource \<Rightarrow> (string \<times> ShaderSource \<times> ShaderSource) list
     \<Rightarrow> 'e + (string \<times> ShaderSource \<times> ShaderSource) list" where
  "recordCreate name vs fs calls = Inr (calls @ [(name, vs, fs)])"

text \<open>Running \<open>create\<close> over a list of argument triples, stopping at the first throw.\<close>

fun createAll ::
  "(string \<Rightarrow> ShaderSource \<Rightarrow> ShaderSource \<Rightarrow> 'r \<Rightarrow> 'e + 'r)
     \<Rightarrow> (string \<times> ShaderSource \<times> ShaderSource) list \<Rightarrow> 'r \<Rightarrow> 'e + 'r" where
  "createAll create [] r = Inr r"
| "createAll create ((name, vs, fs) # rest) r = bindE (create name vs fs r) (createAll create rest)"

section \<open>GLPrimitive: data\<close>

text \<open>
  JavaScript numbers are modelled as \<open>int\<close>; GL objects (buffers, vertex array objects)
  as \<open>nat\<close> handles, \<open>None\<close> standing for \<^verbatim>\<open>null\<close>.
\<close>

record Buffer =
  nativeBuffer :: nat

record IndexBufferBinding =
  buffer :: Buffer

record VertexBufferBinding =
  buffer :: Buffer
  stride :: int

text \<open>\<^verbatim>\<open>_glElementInfo\<close>: its fields \<^verbatim>\<open>size\<close> and \<^verbatim>\<open>type\<close> are renamed, \<open>size\<close>
  being a constant of HOL.\<close>

record ElementInfo =
  infoSize :: int
  infoType :: int

record VertexElement =
  bindingIndex :: int
  normalized :: bool
  offset :: int
  instanceDivisor :: int
  glElementInfo :: ElementInfo

text \<open>
  \<open>vertexBufferBindings\<close> is a JavaScript array: an entry is \<open>None\<close> where the array has a
  hole or holds \<^verbatim>\<open>undefined\<close> or \<^verbatim>\<open>null\<close>. \<open>vertexElementMap\<close> holds the own
  properties of the plain object \<^verbatim>\<open>_vertexElementMap\<close>, by name.
\<close>

record Primitive =
  vertexBufferBindings :: "VertexBufferBinding option list"
  vertexElementMap :: "string \<rightharpoonup> VertexElement"
  indexBufferBinding :: "IndexBufferBinding option"
  instanceCount :: int
  glIndexType :: int

record SubPrimitive =
  topology :: int
  start :: int
  count :: int

text \<open>
  The shader program, as far as \<^verbatim>\<open>draw\<close> reads it. \<^verbatim>\<open>attributeLocation\<close> is listed
  in the order in which \<^verbatim>\<open>for (const name in attributeLocation)\<close> enumerates it.
  (\<open>programId\<close> is the field \<^verbatim>\<open>id\<close>, a name HOL already uses.)
\<close>

record ShaderProgram =
  programId :: int
  attributeLocation :: "(string \<times> int) list"

datatype BufferTarget = ARRAY_BUFFER | ELEMENT_ARRAY_BUFFER

text \<open>The calls made on the GL context. \<open>CreateVertexArray h\<close> records the handle returned.\<close>

datatype GLCall =
    CreateVertexArray nat
  | BindVertexArray "nat option"
  | DeleteVertexArray nat
  | BindBuffer BufferTarget "nat option"
  | EnableVertexAttribArray int
  | DisableVertexAttribArray int
  | VertexAttribPointer int int int bool int int
  | VertexAttribDivisor int int
  | DrawElements int int int int
  | DrawArrays int int int
  | DrawElementsInstanced int int int int int
  | DrawArraysInstanced int int int int

datatype LogEntry = LoggerError string | LoggerWarn string

datatype error = TypeError

text \<open>
  The object and the world it acts on. \<open>gl\<close> is the sequence of calls issued on the
  context so far (oldest first), \<open>glNextVertexArray\<close> the handle the next
  \<^verbatim>\<open>gl.createVertexArray()\<close> returns (the context is taken to be live, so that
  each call returns a new object), \<open>logger\<close> the calls made on \<^verbatim>\<open>Logger\<close>.
  \<open>attribLocArray\<close> is \<open>None\<close> while the field is still \<^verbatim>\<open>undefined\<close> (the
  constructor does not set it). \<open>vao\<close> is the \<^verbatim>\<open>Map\<close> in insertion order.
\<close>

record GLPrimitive =
  primitive :: Primitive
  attribLocArray :: "int list option"
  canUseInstancedArrays :: bool
  gl :: "GLCall list"
  glNextVertexArray :: nat
  vao :: "(int \<times> nat) list"
  useVao :: bool
  logger :: "LogEntry list"

section \<open>The JavaScript Map\<close>

definition Map_has :: "('k \<times> 'v) list \<Rightarrow> 'k \<Rightarrow> bool" where
  "Map_has m k = (map_of m k \<noteq> None)"

definition Map_get :: "('k \<times> 'v) list \<Rightarrow> 'k \<Rightarrow> 'v option" where
  "Map_get m k = map_of m k"

text \<open>\<^verbatim>\<open>Map.prototype.set\<close>: an existing key keeps its place, a new key goes last.\<close>

fun Map_set :: "'k \<Rightarrow> 'v \<Rightarrow> ('k \<times> 'v) list \<Rightarrow> ('k \<times> 'v) list" where
  "Map_set k v [] = [(k, v)]"
| "Map_set k v ((k', v') # m) = (if k' = k then (k, v) # m else (k', v') # Map_set k v m)"


section \<open>JavaScript objects and arrays\<close>

text \<open>
  The names every plain object inherits from \<^verbatim>\<open>Object.prototype\<close>. None of them is
  enumerable; the value of each is a function, that of \<^verbatim>\<open>__proto__\<close> the prototype
  object itself.
\<close>

definition objectPrototypeNames :: "string list" where
  "objectPrototypeNames =
     [''constructor'', ''hasOwnProperty'', ''isPrototypeOf'', ''propertyIsEnumerable'',
      ''toLocaleString'', ''toString'', ''valueOf'', ''__proto__'',
      ''__defineGetter__'', ''__defineSetter__'', ''__lookupGetter__'', ''__lookupSetter__'']"

text \<open>
  What \<^verbatim>\<open>attributes[name]\<close> yields, \<^verbatim>\<open>attributes\<close> being \<^verbatim>\<open>primitive._vertexElementMap\<close>:
  the vertex element stored under the name; failing that, the member inherited from
  \<^verbatim>\<open>Object.prototype\<close> when the name is one of its names (a truthy value that is no
  vertex element and has no \<^verbatim>\<open>bindingIndex\<close>); otherwise \<^verbatim>\<open>undefined\<close>.
\<close>

datatype property = Element VertexElement | Inherited | Undefined

definition attributes :: "Primitive \<Rightarrow> string \<Rightarrow> property" where
  "attributes p name =
     (case vertexElementMap p name of
        Some element \<Rightarrow> Element element
      | None \<Rightarrow> if name \<in> set objectPrototypeNames then Inherited else Undefined)"

text \<open>
  Reading an array at a number: \<open>None\<close> stands for \<^verbatim>\<open>undefined\<close>, which is what an index
  outside the array yields, like a hole.
\<close>

definition Array_at :: "'a option list \<Rightarrow> int \<Rightarrow> 'a option" where
  "Array_at xs i = (if 0 \<le> i \<and> i < int (length xs) then xs ! nat i else None)"
section \<open>GLPrimitive: operations\<close>

text \<open>
  A call either returns or throws; either way it leaves a state behind, since whatever
  it did before throwing stays done.
\<close>

datatype outcome = Returned GLPrimitive | Threw error GLPrimitive

definition andThen :: "outcome \<Rightarrow> (GLPrimitive \<Rightarrow> outcome) \<Rightarrow> outcome" where
  "andThen r f = (case r of Returned s \<Rightarrow> f s | Threw e s \<Rightarrow> Threw e s)"

fun stateAfter :: "outcome \<Rightarrow> GLPrimitive" where
  "stateAfter (Returned s) = s"
| "stateAfter (Threw e s) = s"

fun returned :: "outcome \<Rightarrow> bool" where
  "returned (Returned s) = True"
| "returned (Threw e s) = False"

text \<open>
  The constructor. \<^verbatim>\<open>rhi.canIUse\<close> and \<^verbatim>\<open>rhi.gl\<close> are outside the excerpt: the two
  capability answers and the state of the context and of the logger are parameters.
\<close>

definition construct ::
  "bool \<Rightarrow> bool \<Rightarrow> GLCall list \<Rightarrow> nat \<Rightarrow> LogEntry list \<Rightarrow> Primitive \<Rightarrow> GLPrimitive" where
  "construct instancedArrays vertexArrayObject calls nextVao logged p =
     \<lparr>primitive = p, attribLocArray = None, canUseInstancedArrays = instancedArrays,
      gl = calls, glNextVertexArray = nextVao, vao = [], useVao = vertexArrayObject,
      logger = logged\<rparr>"

definition glCall :: "GLCall \<Rightarrow> GLPrimitive \<Rightarrow> GLPrimitive" where
  "glCall c s = s\<lparr>gl := gl s @ [c]\<rparr>"

definition Logger_error :: "string \<Rightarrow> GLPrimitive \<Rightarrow> GLPrimitive" where
  "Logger_error msg s = s\<lparr>logger := logger s @ [LoggerError msg]\<rparr>"

definition Logger_warn :: "string \<Rightarrow> GLPrimitive \<Rightarrow> GLPrimitive" where
  "Logger_warn msg s = s\<lparr>logger := logger s @ [LoggerWarn msg]\<rparr>"

text \<open>
  The loop of \<^verbatim>\<open>bindBufferAndAttrib\<close> over the remaining attributes; \<open>lastBoundVbo\<close>
  is \<open>None\<close> while the variable is \<^verbatim>\<open>undefined\<close>. Destructuring
  \<^verbatim>\<open>vertexBufferBindings[element.bindingIndex]\<close> throws a TypeError when the read
  yields \<^verbatim>\<open>undefined\<close>: when the index names no binding, and when \<^verbatim>\<open>element\<close> is a
  member inherited from \<^verbatim>\<open>Object.prototype\<close>, whose \<^verbatim>\<open>bindingIndex\<close> is
  \<^verbatim>\<open>undefined\<close>. \<^verbatim>\<open>push\<close> on an \<^verbatim>\<open>undefined\<close> \<^verbatim>\<open>attribLocArray\<close> throws too.
\<close>

fun bindAttribs :: "(string \<times> int) list \<Rightarrow> nat option \<Rightarrow> GLPrimitive \<Rightarrow> outcome" where
  "bindAttribs [] lastBoundVbo s = Returned s"
| "bindAttribs ((name, loc) # rest) lastBoundVbo s =
     (if loc = - 1 then bindAttribs rest lastBoundVbo s
      else case attributes (primitive s) name of
        Undefined \<Rightarrow>
          bindAttribs rest lastBoundVbo (Logger_warn (''vertex attribute not found: '' @ name) s)
      | Inherited \<Rightarrow> Threw TypeError s
      | Element element \<Rightarrow>
          (case Array_at (vertexBufferBindings (primitive s)) (bindingIndex element) of
             None \<Rightarrow> Threw TypeError s
           | Some binding \<Rightarrow>
               let vbo = nativeBuffer (VertexBufferBinding.buffer binding);
                   s1 = (if lastBoundVbo \<noteq> Some vbo
                         then glCall (BindBuffer ARRAY_BUFFER (Some vbo)) s else s);
                   s2 = glCall (EnableVertexAttribArray loc) s1;
                   s3 = glCall (VertexAttribPointer loc
                           (infoSize (glElementInfo element)) (infoType (glElementInfo element))
                           (normalized element) (stride binding) (offset element)) s2;
                   s4 = (if canUseInstancedArrays s3
                         then glCall (VertexAttribDivisor loc (instanceDivisor element)) s3
                         else s3)
               in (case attribLocArray s4 of
                     None \<Rightarrow> Threw TypeError s4
                   | Some locs \<Rightarrow>
                       bindAttribs rest (Some vbo)
                         (s4\<lparr>attribLocArray := Some (locs @ [loc])\<rparr>))))"

definition bindBufferAndAttrib :: "ShaderProgram \<Rightarrow> GLPrimitive \<Rightarrow> outcome" where
  "bindBufferAndAttrib shaderProgram s =
     andThen (bindAttribs (attributeLocation shaderProgram) None (s\<lparr>attribLocArray := Some []\<rparr>))
       (\<lambda>s1. Returned (glCall (BindBuffer ARRAY_BUFFER None) s1))"

text \<open>Reading \<^verbatim>\<open>length\<close> of an \<^verbatim>\<open>undefined\<close> \<^verbatim>\<open>attribLocArray\<close> throws.\<close>

definition disableAttrib :: "GLPrimitive \<Rightarrow> outcome" where
  "disableAttrib s =
     (case attribLocArray s of
        None \<Rightarrow> Threw TypeError s
      | Some locs \<Rightarrow> Returned (s\<lparr>gl := gl s @ map DisableVertexAttribArray locs\<rparr>))"

definition registerVAO :: "ShaderProgram \<Rightarrow> GLPrimitive \<Rightarrow> outcome" where
  "registerVAO shaderProgram s =
     (let vaoObj = glNextVertexArray s;
          s1 = glCall (CreateVertexArray vaoObj) (s\<lparr>glNextVertexArray := Suc vaoObj\<rparr>);
          s2 = glCall (BindVertexArray (Some vaoObj)) s1;
          s3 = (case indexBufferBinding (primitive s2) of
                  Some ib \<Rightarrow>
                    glCall (BindBuffer ELEMENT_ARRAY_BUFFER
                              (Some (nativeBuffer (IndexBufferBinding.buffer ib)))) s2
                | None \<Rightarrow> s2)
      in andThen (bindBufferAndAttrib shaderProgram s3) (\<lambda>s4.
           let s5 = glCall (BindVertexArray None) s4;
               s6 = glCall (BindBuffer ELEMENT_ARRAY_BUFFER None) s5
           in andThen (disableAttrib s6) (\<lambda>s7.
                Returned (s7\<lparr>vao := Map_set (programId shaderProgram) vaoObj (vao s7)\<rparr>))))"

text \<open>The first part of \<^verbatim>\<open>draw\<close> (lines 39 to 47): bind the cached VAO, or the buffers.\<close>

definition drawBind :: "ShaderProgram \<Rightarrow> GLPrimitive \<Rightarrow> outcome" where
  "drawBind shaderProgram s =
     (if useVao s then
        andThen (if \<not> Map_has (vao s) (programId shaderProgram)
                 then registerVAO shaderProgram s else Returned s) (\<lambda>s1.
          Returned (glCall (BindVertexArray (Map_get (vao s1) (programId shaderProgram))) s1))
      else bindBufferAndAttrib shaderProgram s)"

text \<open>The middle part (lines 49 to 82): \<^verbatim>\<open>!instanceCount\<close> holds exactly for 0.\<close>

definition drawIssue :: "SubPrimitive \<Rightarrow> GLPrimitive \<Rightarrow> GLPrimitive" where
  "drawIssue subPrimitive s =
     (let p = primitive s in
      if instanceCount p = 0 then
        (case indexBufferBinding p of
           Some ib \<Rightarrow>
             if useVao s then
               glCall (DrawElements (topology subPrimitive) (count subPrimitive)
                         (glIndexType p) (start subPrimitive)) s
             else
               (let s1 = glCall (BindBuffer ELEMENT_ARRAY_BUFFER
                                   (Some (nativeBuffer (IndexBufferBinding.buffer ib)))) s;
                    s2 = glCall (DrawElements (topology subPrimitive) (count subPrimitive)
                                   (glIndexType p) (start subPrimitive)) s1
                in glCall (BindBuffer ELEMENT_ARRAY_BUFFER None) s2)
         | None \<Rightarrow>
             glCall (DrawArrays (topology subPrimitive) (start subPrimitive)
                       (count subPrimitive)) s)
      else if canUseInstancedArrays s then
        (case indexBufferBinding p of
           Some ib \<Rightarrow>
             if useVao s then
               glCall (DrawElementsInstanced (topology subPrimitive) (count subPrimitive)
                         (glIndexType p) (start subPrimitive) (instanceCount p)) s
             else
               (let s1 = glCall (BindBuffer ELEMENT_ARRAY_BUFFER
                                   (Some (nativeBuffer (IndexBufferBinding.buffer ib)))) s;
                    s2 = glCall (DrawElementsInstanced (topology subPrimitive)
                                   (count subPrimitive) (glIndexType p) (start subPrimitive)
                                   (instanceCount p)) s1
                in glCall (BindBuffer ELEMENT_ARRAY_BUFFER None) s2)
         | None \<Rightarrow>
             glCall (DrawArraysInstanced (topology subPrimitive) (start subPrimitive)
                       (count subPrimitive) (instanceCount p)) s)
      else Logger_error ''ANGLE_instanced_arrays extension is not supported'' s)"

text \<open>The last part (lines 84 to 89).\<close>

definition drawUnbind :: "GLPrimitive \<Rightarrow> outcome" where
  "drawUnbind s =
     (if useVao s then Returned (glCall (BindVertexArray None) s) else disableAttrib s)"

definition draw :: "ShaderProgram \<Rightarrow> SubPrimitive \<Rightarrow> GLPrimitive \<Rightarrow> outcome" where
  "draw shaderProgram subPrimitive s =
     andThen (drawBind shaderProgram s) (\<lambda>s1. drawUnbind (drawIssue subPrimitive s1))"

text \<open>No step of \<^verbatim>\<open>destroy\<close> can throw.\<close>

definition destroy :: "GLPrimitive \<Rightarrow> GLPrimitive" where
  "destroy s =
     (if useVao s then s\<lparr>gl := gl s @ map (\<lambda>(k, v). DeleteVertexArray v) (vao s)\<rparr> else s)"

section \<open>Sequences of draw calls\<close>

text \<open>
  A run of \<^verbatim>\<open>draw\<close> calls on one object, as straight-line code: a call that throws ends
  the run. Between two calls the engine may have changed the primitive, so each step
  carries the primitive as it is when the call is made.
\<close>

fun drawAll ::
  "(Primitive \<times> ShaderProgram \<times> SubPrimitive) list \<Rightarrow> GLPrimitive \<Rightarrow> outcome" where
  "drawAll [] s = Returned s"
| "drawAll ((p, sp, sub) # rest) s = andThen (draw sp sub (s\<lparr>primitive := p\<rparr>)) (drawAll rest)"

text \<open>
  A run on which a call that throws does not end the drawing: the caller catches the
  exception, or the next frame draws again. Each call finds the object as the call
  before it left it.
\<close>

fun drawSeq ::
  "(Primitive \<times> ShaderProgram \<times> SubPrimitive) list \<Rightarrow> GLPrimitive \<Rightarrow> GLPrimitive" where
  "drawSeq [] s = s"
| "drawSeq ((p, sp, sub) # rest) s = drawSeq rest (stateAfter (draw sp sub (s\<lparr>primitive := p\<rparr>)))"

text \<open>
  The calls of such a run that enter \<^verbatim>\<open>registerVAO\<close>, in order: \<^verbatim>\<open>draw\<close> enters it exactly
  when \<^verbatim>\<open>_useVao\<close> holds and \<^verbatim>\<open>vao.has(id)\<close> does not. Each is listed with the program
  id, the VAO its \<^verbatim>\<open>createVertexArray\<close> returns, and whether \<^verbatim>\<open>registerVAO\<close> returns.
\<close>

fun registrations ::
  "(Primitive \<times> ShaderProgram \<times> SubPrimitive) list \<Rightarrow> GLPrimitive \<Rightarrow> (int \<times> nat \<times> bool) list"
  where
  "registrations [] s = []"
| "registrations ((p, sp, sub) # rest) s =
     (if useVao s \<and> \<not> Map_has (vao s) (programId sp)
      then [(programId sp, glNextVertexArray s, returned (registerVAO sp (s\<lparr>primitive := p\<rparr>)))]
      else [])
     @ registrations rest (stateAfter (draw sp sub (s\<lparr>primitive := p\<rparr>)))"
section \<open>Reading the record of GL calls\<close>

text \<open>The calls issued between two states of the same context.\<close>

definition newCalls :: "GLPrimitive \<Rightarrow> GLPrimitive \<Rightarrow> GLCall list" where
  "newCalls s s' = drop (length (gl s)) (gl s')"

fun isDrawCall :: "GLCall \<Rightarrow> bool" where
  "isDrawCall (DrawElements t c ty st) = True"
| "isDrawCall (DrawArrays t st c) = True"
| "isDrawCall (DrawElementsInstanced t c ty st n) = True"
| "isDrawCall (DrawArraysInstanced t st c n) = True"
| "isDrawCall c = False"

fun isVertexArrayCall :: "GLCall \<Rightarrow> bool" where
  "isVertexArrayCall (CreateVertexArray h) = True"
| "isVertexArrayCall (BindVertexArray v) = True"
| "isVertexArrayCall (DeleteVertexArray h) = True"
| "isVertexArrayCall c = False"

fun isCreateVertexArray :: "GLCall \<Rightarrow> bool" where
  "isCreateVertexArray (CreateVertexArray h) = True"
| "isCreateVertexArray c = False"

fun isDeleteVertexArray :: "GLCall \<Rightarrow> bool" where
  "isDeleteVertexArray (DeleteVertexArray h) = True"
| "isDeleteVertexArray c = False"

fun isArrayBufferBind :: "GLCall \<Rightarrow> bool" where
  "isArrayBufferBind (BindBuffer ARRAY_BUFFER v) = True"
| "isArrayBufferBind c = False"

text \<open>The calls by which the loop of \<^verbatim>\<open>bindBufferAndAttrib\<close> sets up one attribute.\<close>

fun isAttribSetup :: "GLCall \<Rightarrow> bool" where
  "isAttribSetup (BindBuffer ARRAY_BUFFER (Some vbo)) = True"
| "isAttribSetup (EnableVertexAttribArray loc) = True"
| "isAttribSetup (VertexAttribPointer loc sz ty nm st off) = True"
| "isAttribSetup (VertexAttribDivisor loc d) = True"
| "isAttribSetup c = False"

text \<open>The locations passed to \<^verbatim>\<open>enableVertexAttribArray\<close>, in order.\<close>

fun enabledLocs :: "GLCall list \<Rightarrow> int list" where
  "enabledLocs [] = []"
| "enabledLocs (EnableVertexAttribArray loc # cs) = loc # enabledLocs cs"
| "enabledLocs (c # cs) = enabledLocs cs"

section \<open>The effect of the operations, in closed form\<close>

text \<open>
  The shader attributes the loop configures: a location other than -1 and a vertex
  element of that name. The unmatched ones have a location and a name under which
  \<^verbatim>\<open>attributes[name]\<close> is \<^verbatim>\<open>undefined\<close>.
\<close>

definition effective :: "Primitive \<Rightarrow> (string \<times> int) list \<Rightarrow> (string \<times> int) list" where
  "effective p attrs =
     filter (\<lambda>(name, loc). loc \<noteq> - 1 \<and> vertexElementMap p name \<noteq> None) attrs"

definition unmatched :: "Primitive \<Rightarrow> (string \<times> int) list \<Rightarrow> (string \<times> int) list" where
  "unmatched p attrs =
     filter (\<lambda>(name, loc). loc \<noteq> - 1 \<and> attributes p name = Undefined) attrs"

text \<open>
  An attribute at which the loop throws: it has a location, and either its name yields a
  member inherited from \<^verbatim>\<open>Object.prototype\<close> or its vertex element names no vertex
  buffer binding. \<open>reached\<close> are the attributes the loop gets through before it throws,
  all of them when it does not.
\<close>

definition throwsAt :: "Primitive \<Rightarrow> string \<times> int \<Rightarrow> bool" where
  "throwsAt p a =
     (snd a \<noteq> - 1 \<and>
      (case attributes p (fst a) of
         Undefined \<Rightarrow> False
       | Inherited \<Rightarrow> True
       | Element element \<Rightarrow> Array_at (vertexBufferBindings p) (bindingIndex element) = None))"

definition bindable :: "Primitive \<Rightarrow> (string \<times> int) list \<Rightarrow> bool" where
  "bindable p attrs = list_all (\<lambda>a. \<not> throwsAt p a) attrs"

definition reached :: "Primitive \<Rightarrow> (string \<times> int) list \<Rightarrow> (string \<times> int) list" where
  "reached p attrs = takeWhile (\<lambda>a. \<not> throwsAt p a) attrs"

text \<open>
  The GL calls of the loop, which end where it throws, and the warnings it logs. That
  the loop issues exactly these is \<open>bindAttribs_eq\<close> below.
\<close>

fun attribCalls ::
  "Primitive \<Rightarrow> bool \<Rightarrow> (string \<times> int) list \<Rightarrow> nat option \<Rightarrow> GLCall list" where
  "attribCalls p instanced [] lastBoundVbo = []"
| "attribCalls p instanced ((name, loc) # rest) lastBoundVbo =
     (if loc = - 1 then attribCalls p instanced rest lastBoundVbo
      else case attributes p name of
        Undefined \<Rightarrow> attribCalls p instanced rest lastBoundVbo
      | Inherited \<Rightarrow> []
      | Element element \<Rightarrow>
          (case Array_at (vertexBufferBindings p) (bindingIndex element) of
             None \<Rightarrow> []
           | Some binding \<Rightarrow>
               (let vbo = nativeBuffer (VertexBufferBinding.buffer binding)
                in (if lastBoundVbo \<noteq> Some vbo then [BindBuffer ARRAY_BUFFER (Some vbo)] else [])
                   @ [EnableVertexAttribArray loc,
                      VertexAttribPointer loc
                        (infoSize (glElementInfo element)) (infoType (glElementInfo element))
                        (normalized element) (stride binding) (offset element)]
                   @ (if instanced then [VertexAttribDivisor loc (instanceDivisor element)]
                      else [])
                   @ attribCalls p instanced rest (Some vbo))))"

definition attribWarnings :: "Primitive \<Rightarrow> (string \<times> int) list \<Rightarrow> LogEntry list" where
  "attribWarnings p attrs =
     map (\<lambda>(name, loc). LoggerWarn (''vertex attribute not found: '' @ name)) (unmatched p attrs)"

text \<open>The call by which \<^verbatim>\<open>registerVAO\<close> binds the index buffer, if there is one.\<close>

definition elementBind :: "Primitive \<Rightarrow> GLCall list" where
  "elementBind p =
     (case indexBufferBinding p of
        Some ib \<Rightarrow>
          [BindBuffer ELEMENT_ARRAY_BUFFER (Some (nativeBuffer (IndexBufferBinding.buffer ib)))]
      | None \<Rightarrow> [])"

text \<open>The state the loop leaves when it has got through the attributes \<open>seen\<close>.\<close>

definition afterAttribs ::
  "(string \<times> int) list \<Rightarrow> nat option \<Rightarrow> int list \<Rightarrow> GLPrimitive \<Rightarrow> GLPrimitive" where
  "afterAttribs seen lastBoundVbo pushed s =
     s\<lparr>attribLocArray := Some (pushed @ map snd (effective (primitive s) seen)),
       gl := gl s @ attribCalls (primitive s) (canUseInstancedArrays s) seen lastBoundVbo,
       logger := logger s @ attribWarnings (primitive s) seen\<rparr>"

text \<open>The GL calls and the log entries of the middle part of \<^verbatim>\<open>draw\<close> (\<open>drawIssue_eq\<close>).\<close>

definition issueCalls :: "Primitive \<Rightarrow> bool \<Rightarrow> bool \<Rightarrow> SubPrimitive \<Rightarrow> GLCall list" where
  "issueCalls p vaoMode instanced sub =
     (if instanceCount p = 0 then
        (case indexBufferBinding p of
           Some ib \<Rightarrow>
             if vaoMode then
               [DrawElements (topology sub) (count sub) (glIndexType p) (start sub)]
             else
               [BindBuffer ELEMENT_ARRAY_BUFFER (Some (nativeBuffer (IndexBufferBinding.buffer ib))),
                DrawElements (topology sub) (count sub) (glIndexType p) (start sub),
                BindBuffer ELEMENT_ARRAY_BUFFER None]
         | None \<Rightarrow> [DrawArrays (topology sub) (start sub) (count sub)])
      else if instanced then
        (case indexBufferBinding p of
           Some ib \<Rightarrow>
             if vaoMode then
               [DrawElementsInstanced (topology sub) (count sub) (glIndexType p) (start sub)
                  (instanceCount p)]
             else
               [BindBuffer ELEMENT_ARRAY_BUFFER (Some (nativeBuffer (IndexBufferBinding.buffer ib))),
                DrawElementsInstanced (topology sub) (count sub) (glIndexType p) (start sub)
                  (instanceCount p),
                BindBuffer ELEMENT_ARRAY_BUFFER None]
         | None \<Rightarrow>
             [DrawArraysInstanced (topology sub) (start sub) (count sub) (instanceCount p)])
      else [])"

definition issueLog :: "Primitive \<Rightarrow> bool \<Rightarrow> LogEntry list" where
  "issueLog p instanced =
     (if instanceCount p \<noteq> 0 \<and> \<not> instanced
      then [LoggerError ''ANGLE_instanced_arrays extension is not supported''] else [])"

section \<open>Concrete inputs\<close>

text \<open>
  A primitive with one vertex buffer (handle 7), one vertex element \<open>POSITION\<close> in it and
  an index buffer (handle 9); a shader program with a matching attribute, an attribute
  \<open>NORMAL\<close> the primitive lacks and an attribute without location; a second program.
\<close>

definition exampleElement :: VertexElement where
  "exampleElement =
     \<lparr>bindingIndex = 0, normalized = False, offset = 0, instanceDivisor = 0,
      glElementInfo = \<lparr>infoSize = 3, infoType = 5126\<rparr>\<rparr>"

definition examplePrimitive :: "int \<Rightarrow> Primitive" where
  "examplePrimitive instances =
     \<lparr>vertexBufferBindings = [Some \<lparr>buffer = \<lparr>nativeBuffer = 7\<rparr>, stride = 12\<rparr>],
      vertexElementMap = [''POSITION'' \<mapsto> exampleElement],
      indexBufferBinding = Some \<lparr>IndexBufferBinding.buffer = \<lparr>nativeBuffer = 9\<rparr>\<rparr>,
      instanceCount = instances,
      glIndexType = 5123\<rparr>"

definition exampleShader :: ShaderProgram where
  "exampleShader =
     \<lparr>programId = 1,
      attributeLocation = [(''POSITION'', 0), (''NORMAL'', 1), (''TEXCOORD_0'', - 1)]\<rparr>"

definition otherShader :: ShaderProgram where
  "otherShader = \<lparr>programId = 2, attributeLocation = [(''POSITION'', 3)]\<rparr>"

definition exampleSub :: SubPrimitive where
  "exampleSub = \<lparr>topology = 4, start = 0, count = 36\<rparr>"

text \<open>The same primitive before it is given an index buffer.\<close>

definition plainPrimitive :: Primitive where
  "plainPrimitive = (examplePrimitive 0)\<lparr>indexBufferBinding := None\<rparr>"

text \<open>The same primitive while it has no vertex buffer binding.\<close>

definition brokenPrimitive :: Primitive where
  "brokenPrimitive = (examplePrimitive 0)\<lparr>vertexBufferBindings := []\<rparr>"

text \<open>
  A shader program whose second attribute is named \<open>constructor\<close>; the example primitive
  has no vertex element of that name.
\<close>

definition constructorShader :: ShaderProgram where
  "constructorShader =
     \<lparr>programId = 3, attributeLocation = [(''POSITION'', 0), (''constructor'', 1)]\<rparr>"

definition exampleSteps :: "(Primitive \<times> ShaderProgram \<times> SubPrimitive) list" where
  "exampleSteps =
     [(examplePrimitive 0, exampleShader, exampleSub),
      (examplePrimitive 0, otherShader, exampleSub),
      (examplePrimitive 3, exampleShader, exampleSub)]"

text \<open>A run whose first call throws: the primitive gets its vertex buffer after it.\<close>

definition retrySteps :: "(Primitive \<times> ShaderProgram \<times> SubPrimitive) list" where
  "retrySteps =
     [(brokenPrimitive, exampleShader, exampleSub),
      (examplePrimitive 0, exampleShader, exampleSub)]"
section \<open>Lemmas: the operations in closed form\<close>

lemma glCall_fields [simp]:
  "gl (glCall c s) = gl s @ [c]"
  "primitive (glCall c s) = primitive s"
  "attribLocArray (glCall c s) = attribLocArray s"
  "canUseInstancedArrays (glCall c s) = canUseInstancedArrays s"
  "glNextVertexArray (glCall c s) = glNextVertexArray s"
  "vao (glCall c s) = vao s"
  "useVao (glCall c s) = useVao s"
  "logger (glCall c s) = logger s"
  by (simp_all add: glCall_def)

lemma Logger_warn_fields [simp]:
  "gl (Logger_warn m s) = gl s"
  "primitive (Logger_warn m s) = primitive s"
  "attribLocArray (Logger_warn m s) = attribLocArray s"
  "canUseInstancedArrays (Logger_warn m s) = canUseInstancedArrays s"
  "glNextVertexArray (Logger_warn m s) = glNextVertexArray s"
  "vao (Logger_warn m s) = vao s"
  "useVao (Logger_warn m s) = useVao s"
  "logger (Logger_warn m s) = logger s @ [LoggerWarn m]"
  by (simp_all add: Logger_warn_def)

lemma afterAttribs_fields [simp]:
  "gl (afterAttribs seen l pushed s)
     = gl s @ attribCalls (primitive s) (canUseInstancedArrays s) seen l"
  "primitive (afterAttribs seen l pushed s) = primitive s"
  "attribLocArray (afterAttribs seen l pushed s)
     = Some (pushed @ map snd (effective (primitive s) seen))"
  "canUseInstancedArrays (afterAttribs seen l pushed s) = canUseInstancedArrays s"
  "glNextVertexArray (afterAttribs seen l pushed s) = glNextVertexArray s"
  "vao (afterAttribs seen l pushed s) = vao s"
  "useVao (afterAttribs seen l pushed s) = useVao s"
  "logger (afterAttribs seen l pushed s) = logger s @ attribWarnings (primitive s) seen"
  by (simp_all add: afterAttribs_def)

lemma enabledLocs_append [simp]: "enabledLocs (xs @ ys) = enabledLocs xs @ enabledLocs ys"
  by (induction xs rule: enabledLocs.induct) simp_all

lemma afterAttribs_Nil: "attribLocArray s = Some pushed \<Longrightarrow> afterAttribs [] l pushed s = s"
  by (simp add: afterAttribs_def effective_def attribWarnings_def unmatched_def)

lemma attributes_Element:
  "attributes p name = Element element \<longleftrightarrow> vertexElementMap p name = Some element"
  by (simp add: attributes_def split: option.splits)

lemma attributes_Undefined:
  "attributes p name = Undefined \<longleftrightarrow>
     vertexElementMap p name = None \<and> name \<notin> set objectPrototypeNames"
  by (simp add: attributes_def split: option.splits)

lemma attributes_Inherited:
  "attributes p name = Inherited \<longleftrightarrow>
     vertexElementMap p name = None \<and> name \<in> set objectPrototypeNames"
  by (simp add: attributes_def split: option.splits)

lemmas attributes_iff = attributes_Element attributes_Undefined attributes_Inherited

lemma attributes_no_element:
  "attributes p name = Undefined \<or> attributes p name = Inherited \<Longrightarrow>
     vertexElementMap p name = None"
  by (auto simp: attributes_def split: option.splits if_splits)

lemma afterAttribs_skip:
  "loc = - 1 \<Longrightarrow> afterAttribs ((name, loc) # seen) l pushed s = afterAttribs seen l pushed s"
  by (simp add: afterAttribs_def effective_def attribWarnings_def unmatched_def)

lemma afterAttribs_warn:
  "loc \<noteq> - 1 \<Longrightarrow> attributes (primitive s) name = Undefined \<Longrightarrow>
   afterAttribs ((name, loc) # seen) l pushed s
     = afterAttribs seen l pushed (Logger_warn (''vertex attribute not found: '' @ name) s)"
  by (simp add: afterAttribs_def effective_def attribWarnings_def unmatched_def Logger_warn_def
      attributes_no_element)

text \<open>
  The loop gets through the attributes up to the first one at which it throws; it
  changes exactly \<open>attribLocArray\<close>, the record of calls and the log.
\<close>

lemma bindAttribs_eq:
  "attribLocArray s = Some pushed \<Longrightarrow>
   bindAttribs attrs lastBoundVbo s =
     (if bindable (primitive s) attrs
      then Returned (afterAttribs attrs lastBoundVbo pushed s)
      else Threw TypeError (afterAttribs (reached (primitive s) attrs) lastBoundVbo pushed s))"
proof (induction attrs arbitrary: lastBoundVbo s pushed)
  case Nil
  then show ?case
    by (simp add: bindable_def afterAttribs_Nil)
next
  case (Cons a rest)
  obtain name loc where a: "a = (name, loc)" by (cases a)
  show ?case
  proof (cases "loc = - 1")
    case True
    with Cons a show ?thesis
      by (simp add: bindable_def reached_def throwsAt_def afterAttribs_skip)
  next
    case False
    note loc = this
    show ?thesis
    proof (cases "attributes (primitive s) name")
      case Undefined
      have "attribLocArray (Logger_warn (''vertex attribute not found: '' @ name) s) = Some pushed"
        using Cons.prems by simp
      from Cons.IH[OF this] loc Undefined a show ?thesis
        by (simp add: bindable_def reached_def throwsAt_def afterAttribs_warn)
    next
      case Inherited
      with loc a Cons.prems show ?thesis
        by (simp add: bindable_def reached_def throwsAt_def afterAttribs_Nil)
    next
      case (Element element)
      note el = this
      show ?thesis
      proof (cases "Array_at (vertexBufferBindings (primitive s)) (bindingIndex element)")
        case None
        with loc el a Cons.prems show ?thesis
          by (simp add: bindable_def reached_def throwsAt_def afterAttribs_Nil)
      next
        case (Some binding)
        define vbo where "vbo = nativeBuffer (VertexBufferBinding.buffer binding)"
        define cs where "cs =
           (if lastBoundVbo \<noteq> Some vbo then [BindBuffer ARRAY_BUFFER (Some vbo)] else [])
           @ [EnableVertexAttribArray loc,
              VertexAttribPointer loc
                (infoSize (glElementInfo element)) (infoType (glElementInfo element))
                (normalized element) (stride binding) (offset element)]
           @ (if canUseInstancedArrays s
              then [VertexAttribDivisor loc (instanceDivisor element)] else [])"
        define s5 where "s5 = s\<lparr>gl := gl s @ cs, attribLocArray := Some (pushed @ [loc])\<rparr>"
        have step: "bindAttribs (a # rest) lastBoundVbo s = bindAttribs rest (Some vbo) s5"
          using loc el Some Cons.prems a
          by (simp add: Let_def glCall_def s5_def cs_def vbo_def)
        have p5: "primitive s5 = primitive s" "canUseInstancedArrays s5 = canUseInstancedArrays s"
          "attribLocArray s5 = Some (pushed @ [loc])" "gl s5 = gl s @ cs" "logger s5 = logger s"
          by (simp_all add: s5_def)
        have el': "vertexElementMap (primitive s) name = Some element"
          using el by (simp add: attributes_Element)
        have eq: "afterAttribs seen (Some vbo) (pushed @ [loc]) s5
                    = afterAttribs (a # seen) lastBoundVbo pushed s" for seen
          using loc el el' Some a
          by (simp add: afterAttribs_def effective_def attribWarnings_def unmatched_def s5_def
              cs_def vbo_def Let_def)
        have ok: "\<not> throwsAt (primitive s) a"
          using loc el Some a by (simp add: throwsAt_def)
        from Cons.IH[OF p5(3), where lastBoundVbo = "Some vbo"] step p5 eq ok show ?thesis
          by (simp add: bindable_def reached_def)
      qed
    qed
  qed
qed

text \<open>The calls end at the attribute at which the loop throws.\<close>

lemma reached_Cons: "reached p (a # attrs) = (if throwsAt p a then [] else a # reached p attrs)"
  by (simp add: reached_def)

lemma attribCalls_throwsAt:
  "throwsAt p (name, loc) \<Longrightarrow> attribCalls p instanced ((name, loc) # rest) lastBoundVbo = []"
  by (auto simp: throwsAt_def split: property.splits)


lemma attribCalls_setup: "list_all isAttribSetup (attribCalls p instanced attrs lastBoundVbo)"
proof (induction attrs arbitrary: lastBoundVbo)
  case Nil
  then show ?case by simp
next
  case (Cons a rest)
  obtain name loc where a: "a = (name, loc)" by (cases a)
  from Cons.IH a show ?case
    by (auto simp: Let_def split: property.splits option.splits)
qed

lemma effective_Cons:
  "effective p ((name, loc) # attrs) =
     (if loc \<noteq> - 1 \<and> vertexElementMap p name \<noteq> None then [(name, loc)] else [])
     @ effective p attrs"
  by (simp add: effective_def)

lemma attribCalls_enabled:
  "enabledLocs (attribCalls p instanced attrs lastBoundVbo)
     = map snd (effective p (reached p attrs))"
proof (induction attrs arbitrary: lastBoundVbo)
  case Nil
  then show ?case by (simp add: reached_def effective_def)
next
  case (Cons a rest)
  obtain name loc where a: "a = (name, loc)" by (cases a)
  show ?case
  proof (cases "throwsAt p a")
    case True
    with a show ?thesis
      by (simp add: reached_Cons attribCalls_throwsAt effective_def del: attribCalls.simps(2))
  next
    case False
    then have r: "reached p (a # rest) = a # reached p rest"
      by (simp add: reached_Cons)
    from False a Cons.IH show ?thesis unfolding r
      by (auto simp: effective_Cons Let_def attributes_iff throwsAt_def
          split: property.splits option.splits)
  qed
qed

lemma reached_bindable: "bindable p attrs \<Longrightarrow> reached p attrs = attrs"
  by (simp add: bindable_def reached_def list_all_iff)

text \<open>Whether the loop throws depends on the vertex elements and the bindings only.\<close>

lemma throwsAt_cong:
  "vertexElementMap p' = vertexElementMap p \<Longrightarrow>
   vertexBufferBindings p' = vertexBufferBindings p \<Longrightarrow> throwsAt p' a = throwsAt p a"
  by (simp add: throwsAt_def attributes_def cong: property.case_cong)

lemma bindable_cong:
  "vertexElementMap p' = vertexElementMap p \<Longrightarrow>
   vertexBufferBindings p' = vertexBufferBindings p \<Longrightarrow> bindable p' attrs = bindable p attrs"
  by (simp add: bindable_def throwsAt_cong[of p' p])

lemma bindBufferAndAttrib_eq:
  "bindBufferAndAttrib sp s =
     (if bindable (primitive s) (attributeLocation sp)
      then Returned
             (s\<lparr>attribLocArray := Some (map snd (effective (primitive s) (attributeLocation sp))),
                gl := gl s @ attribCalls (primitive s) (canUseInstancedArrays s)
                                (attributeLocation sp) None
                           @ [BindBuffer ARRAY_BUFFER None],
                logger := logger s @ attribWarnings (primitive s) (attributeLocation sp)\<rparr>)
      else Threw TypeError
             (s\<lparr>attribLocArray :=
                  Some (map snd (effective (primitive s)
                                   (reached (primitive s) (attributeLocation sp)))),
                gl := gl s @ attribCalls (primitive s) (canUseInstancedArrays s)
                                (reached (primitive s) (attributeLocation sp)) None,
                logger := logger s
                  @ attribWarnings (primitive s) (reached (primitive s) (attributeLocation sp))\<rparr>))"
  by (simp add: bindBufferAndAttrib_def andThen_def glCall_def afterAttribs_def
        bindAttribs_eq[where pushed = "[]"])

lemma registerVAO_eq:
  "registerVAO sp s =
     (if bindable (primitive s) (attributeLocation sp)
      then Returned
             (s\<lparr>attribLocArray := Some (map snd (effective (primitive s) (attributeLocation sp))),
                gl := gl s
                  @ [CreateVertexArray (glNextVertexArray s),
                     BindVertexArray (Some (glNextVertexArray s))]
                  @ elementBind (primitive s)
                  @ attribCalls (primitive s) (canUseInstancedArrays s) (attributeLocation sp) None
                  @ [BindBuffer ARRAY_BUFFER None,
                     BindVertexArray None,
                     BindBuffer ELEMENT_ARRAY_BUFFER None]
                  @ map DisableVertexAttribArray
                      (map snd (effective (primitive s) (attributeLocation sp))),
                glNextVertexArray := Suc (glNextVertexArray s),
                vao := Map_set (programId sp) (glNextVertexArray s) (vao s),
                logger := logger s @ attribWarnings (primitive s) (attributeLocation sp)\<rparr>)
      else Threw TypeError
             (s\<lparr>attribLocArray :=
                  Some (map snd (effective (primitive s)
                                   (reached (primitive s) (attributeLocation sp)))),
                gl := gl s
                  @ [CreateVertexArray (glNextVertexArray s),
                     BindVertexArray (Some (glNextVertexArray s))]
                  @ elementBind (primitive s)
                  @ attribCalls (primitive s) (canUseInstancedArrays s)
                      (reached (primitive s) (attributeLocation sp)) None,
                glNextVertexArray := Suc (glNextVertexArray s),
                logger := logger s
                  @ attribWarnings (primitive s) (reached (primitive s) (attributeLocation sp))\<rparr>))"
  by (simp add: registerVAO_def Let_def bindBufferAndAttrib_eq andThen_def disableAttrib_def
        elementBind_def glCall_def split: option.splits)

lemma drawIssue_eq:
  "drawIssue sub s =
     s\<lparr>gl := gl s @ issueCalls (primitive s) (useVao s) (canUseInstancedArrays s) sub,
       logger := logger s @ issueLog (primitive s) (canUseInstancedArrays s)\<rparr>"
  by (simp add: drawIssue_def issueCalls_def issueLog_def Let_def glCall_def Logger_error_def
        split: option.splits)

text \<open>The Map: a key that is absent is appended; entries in front win the lookup.\<close>

lemma Map_set_absent: "\<not> Map_has m k \<Longrightarrow> Map_set k v m = m @ [(k, v)]"
  by (induction m) (auto simp: Map_has_def split: if_splits)

lemma Map_get_append_absent:
  "\<not> Map_has m k \<Longrightarrow> Map_get (m @ [(k, v)]) k = Some v"
  by (simp add: Map_has_def Map_get_def map_add_def)

lemma Map_has_append: "Map_has (m @ m') k \<longleftrightarrow> Map_has m k \<or> Map_has m' k"
  by (auto simp: Map_has_def map_add_def split: option.splits)

lemma Map_get_append_Some: "Map_get m k = Some v \<Longrightarrow> Map_get (m @ m') k = Some v"
  by (simp add: Map_get_def map_add_def)

text \<open>
  The ways \<^verbatim>\<open>draw\<close> runs: with the VAO of the program cached, registering it, and without
  VAO support; in the last two the binding step may throw.
\<close>

lemma draw_cached:
  "useVao s \<Longrightarrow> Map_has (vao s) (programId sp) \<Longrightarrow>
   draw sp sub s =
     Returned (s\<lparr>gl := gl s @ [BindVertexArray (Map_get (vao s) (programId sp))]
                  @ issueCalls (primitive s) True (canUseInstancedArrays s) sub
                  @ [BindVertexArray None],
            logger := logger s @ issueLog (primitive s) (canUseInstancedArrays s)\<rparr>)"
  by (simp add: draw_def drawBind_def drawUnbind_def andThen_def drawIssue_eq glCall_def)

lemma draw_register:
  "useVao s \<Longrightarrow> \<not> Map_has (vao s) (programId sp) \<Longrightarrow>
   draw sp sub s =
     (if bindable (primitive s) (attributeLocation sp)
      then Returned
             (s\<lparr>attribLocArray := Some (map snd (effective (primitive s) (attributeLocation sp))),
                gl := gl s
                  @ [CreateVertexArray (glNextVertexArray s),
                     BindVertexArray (Some (glNextVertexArray s))]
                  @ elementBind (primitive s)
                  @ attribCalls (primitive s) (canUseInstancedArrays s) (attributeLocation sp) None
                  @ [BindBuffer ARRAY_BUFFER None,
                     BindVertexArray None,
                     BindBuffer ELEMENT_ARRAY_BUFFER None]
                  @ map DisableVertexAttribArray
                      (map snd (effective (primitive s) (attributeLocation sp)))
                  @ [BindVertexArray (Some (glNextVertexArray s))]
                  @ issueCalls (primitive s) True (canUseInstancedArrays s) sub
                  @ [BindVertexArray None],
                glNextVertexArray := Suc (glNextVertexArray s),
                vao := vao s @ [(programId sp, glNextVertexArray s)],
                logger := logger s @ attribWarnings (primitive s) (attributeLocation sp)
                            @ issueLog (primitive s) (canUseInstancedArrays s)\<rparr>)
      else Threw TypeError
             (s\<lparr>attribLocArray :=
                  Some (map snd (effective (primitive s)
                                   (reached (primitive s) (attributeLocation sp)))),
                gl := gl s
                  @ [CreateVertexArray (glNextVertexArray s),
                     BindVertexArray (Some (glNextVertexArray s))]
                  @ elementBind (primitive s)
                  @ attribCalls (primitive s) (canUseInstancedArrays s)
                      (reached (primitive s) (attributeLocation sp)) None,
                glNextVertexArray := Suc (glNextVertexArray s),
                logger := logger s
                  @ attribWarnings (primitive s) (reached (primitive s) (attributeLocation sp))\<rparr>))"
  by (simp add: draw_def drawBind_def drawUnbind_def andThen_def drawIssue_eq glCall_def
        registerVAO_eq Map_set_absent Map_get_append_absent)

lemma draw_noVao:
  "\<not> useVao s \<Longrightarrow>
   draw sp sub s =
     (if bindable (primitive s) (attributeLocation sp)
      then Returned
             (s\<lparr>attribLocArray := Some (map snd (effective (primitive s) (attributeLocation sp))),
                gl := gl s
                  @ attribCalls (primitive s) (canUseInstancedArrays s) (attributeLocation sp) None
                  @ [BindBuffer ARRAY_BUFFER None]
                  @ issueCalls (primitive s) False (canUseInstancedArrays s) sub
                  @ map DisableVertexAttribArray
                      (map snd (effective (primitive s) (attributeLocation sp))),
                logger := logger s @ attribWarnings (primitive s) (attributeLocation sp)
                            @ issueLog (primitive s) (canUseInstancedArrays s)\<rparr>)
      else Threw TypeError
             (s\<lparr>attribLocArray :=
                  Some (map snd (effective (primitive s)
                                   (reached (primitive s) (attributeLocation sp)))),
                gl := gl s @ attribCalls (primitive s) (canUseInstancedArrays s)
                                (reached (primitive s) (attributeLocation sp)) None,
                logger := logger s
                  @ attribWarnings (primitive s) (reached (primitive s) (attributeLocation sp))\<rparr>))"
  by (simp add: draw_def drawBind_def drawUnbind_def andThen_def drawIssue_eq glCall_def
        bindBufferAndAttrib_eq disableAttrib_def)

lemma draw_returns:
  "returned (draw sp sub s) \<longleftrightarrow>
     (useVao s \<and> Map_has (vao s) (programId sp))
     \<or> bindable (primitive s) (attributeLocation sp)"
  by (cases "useVao s"; cases "Map_has (vao s) (programId sp)")
     (simp_all add: draw_cached draw_register draw_noVao)

lemma returned_iff: "returned r \<longleftrightarrow> (\<exists>s'. r = Returned s')"
  by (cases r) simp_all

lemma draw_cases [case_names cached register registerThrows direct directThrows]:
  assumes "\<lbrakk>useVao s; Map_has (vao s) (programId sp);
     draw sp sub s =
       Returned (s\<lparr>gl := gl s @ [BindVertexArray (Map_get (vao s) (programId sp))]
                    @ issueCalls (primitive s) True (canUseInstancedArrays s) sub
                    @ [BindVertexArray None],
              logger := logger s @ issueLog (primitive s) (canUseInstancedArrays s)\<rparr>)\<rbrakk> \<Longrightarrow> P"
    and "\<lbrakk>useVao s; \<not> Map_has (vao s) (programId sp);
     bindable (primitive s) (attributeLocation sp);
     draw sp sub s =
       Returned
         (s\<lparr>attribLocArray := Some (map snd (effective (primitive s) (attributeLocation sp))),
            gl := gl s
              @ [CreateVertexArray (glNextVertexArray s),
                 BindVertexArray (Some (glNextVertexArray s))]
              @ elementBind (primitive s)
              @ attribCalls (primitive s) (canUseInstancedArrays s) (attributeLocation sp) None
              @ [BindBuffer ARRAY_BUFFER None,
                 BindVertexArray None,
                 BindBuffer ELEMENT_ARRAY_BUFFER None]
              @ map DisableVertexAttribArray
                  (map snd (effective (primitive s) (attributeLocation sp)))
              @ [BindVertexArray (Some (glNextVertexArray s))]
              @ issueCalls (primitive s) True (canUseInstancedArrays s) sub
              @ [BindVertexArray None],
            glNextVertexArray := Suc (glNextVertexArray s),
            vao := vao s @ [(programId sp, glNextVertexArray s)],
            logger := logger s @ attribWarnings (primitive s) (attributeLocation sp)
                        @ issueLog (primitive s) (canUseInstancedArrays s)\<rparr>)\<rbrakk> \<Longrightarrow> P"
    and "\<lbrakk>useVao s; \<not> Map_has (vao s) (programId sp);
     \<not> bindable (primitive s) (attributeLocation sp);
     draw sp sub s =
       Threw TypeError
         (s\<lparr>attribLocArray :=
              Some (map snd (effective (primitive s)
                               (reached (primitive s) (attributeLocation sp)))),
            gl := gl s
              @ [CreateVertexArray (glNextVertexArray s),
                 BindVertexArray (Some (glNextVertexArray s))]
              @ elementBind (primitive s)
              @ attribCalls (primitive s) (canUseInstancedArrays s)
                  (reached (primitive s) (attributeLocation sp)) None,
            glNextVertexArray := Suc (glNextVertexArray s),
            logger := logger s
              @ attribWarnings (primitive s) (reached (primitive s) (attributeLocation sp))\<rparr>)\<rbrakk>
       \<Longrightarrow> P"
    and "\<lbrakk>\<not> useVao s; bindable (primitive s) (attributeLocation sp);
     draw sp sub s =
       Returned
         (s\<lparr>attribLocArray := Some (map snd (effective (primitive s) (attributeLocation sp))),
            gl := gl s
              @ attribCalls (primitive s) (canUseInstancedArrays s) (attributeLocation sp) None
              @ [BindBuffer ARRAY_BUFFER None]
              @ issueCalls (primitive s) False (canUseInstancedArrays s) sub
              @ map DisableVertexAttribArray
                  (map snd (effective (primitive s) (attributeLocation sp))),
            logger := logger s @ attribWarnings (primitive s) (attributeLocation sp)
                        @ issueLog (primitive s) (canUseInstancedArrays s)\<rparr>)\<rbrakk> \<Longrightarrow> P"
    and "\<lbrakk>\<not> useVao s; \<not> bindable (primitive s) (attributeLocation sp);
     draw sp sub s =
       Threw TypeError
         (s\<lparr>attribLocArray :=
              Some (map snd (effective (primitive s)
                               (reached (primitive s) (attributeLocation sp)))),
            gl := gl s @ attribCalls (primitive s) (canUseInstancedArrays s)
                            (reached (primitive s) (attributeLocation sp)) None,
            logger := logger s
              @ attribWarnings (primitive s) (reached (primitive s) (attributeLocation sp))\<rparr>)\<rbrakk>
       \<Longrightarrow> P"
  shows P
proof (cases "useVao s")
  case False
  with assms(4,5) draw_noVao[OF False, of sp sub] show ?thesis
    by (cases "bindable (primitive s) (attributeLocation sp)") simp_all
next
  case True
  show ?thesis
  proof (cases "Map_has (vao s) (programId sp)")
    case h: True
    with assms(1) draw_cached[OF True h, of sub] True show ?thesis by simp
  next
    case h: False
    with assms(2,3) draw_register[OF True h, of sub] True show ?thesis
      by (cases "bindable (primitive s) (attributeLocation sp)") simp_all
  qed
qed

section \<open>Lemmas: classifying the calls\<close>

lemma setup_not_draw: "isAttribSetup c \<Longrightarrow> \<not> isDrawCall c"
  by (cases c rule: isAttribSetup.cases) simp_all


lemma setup_not_create: "isAttribSetup c \<Longrightarrow> \<not> isCreateVertexArray c \<and> \<not> isDeleteVertexArray c"
  by (cases c rule: isAttribSetup.cases) simp_all

lemma filter_draw_attribCalls [simp]:
  "filter isDrawCall (attribCalls p instanced attrs lastBoundVbo) = []"
  using attribCalls_setup[of p instanced attrs lastBoundVbo]
  by (auto simp: filter_empty_conv list_all_iff dest: setup_not_draw)

lemma filter_create_attribCalls [simp]:
  "filter isCreateVertexArray (attribCalls p instanced attrs lastBoundVbo) = []"
  using attribCalls_setup[of p instanced attrs lastBoundVbo]
  by (auto simp: filter_empty_conv list_all_iff dest: setup_not_create)

lemma filter_delete_attribCalls [simp]:
  "filter isDeleteVertexArray (attribCalls p instanced attrs lastBoundVbo) = []"
  using attribCalls_setup[of p instanced attrs lastBoundVbo]
  by (auto simp: filter_empty_conv list_all_iff dest: setup_not_create)


lemma elementBind_filters [simp]:
  "filter isDrawCall (elementBind p) = []"
  "filter isCreateVertexArray (elementBind p) = []"
  "filter isDeleteVertexArray (elementBind p) = []"
  by (simp_all add: elementBind_def split: option.splits)

lemma disable_filters [simp]:
  "filter isDrawCall (map (DisableVertexAttribArray \<circ> f) xs) = []"
  "filter isCreateVertexArray (map (DisableVertexAttribArray \<circ> f) xs) = []"
  "filter isDeleteVertexArray (map (DisableVertexAttribArray \<circ> f) xs) = []"
  "filter isArrayBufferBind (map (DisableVertexAttribArray \<circ> f) xs) = []"
  "enabledLocs (map (DisableVertexAttribArray \<circ> f) xs) = []"
  by (induction xs) simp_all

lemma issueCalls_filters [simp]:
  "filter isCreateVertexArray (issueCalls p vaoMode instanced sub) = []"
  "filter isDeleteVertexArray (issueCalls p vaoMode instanced sub) = []"
  "filter isArrayBufferBind (issueCalls p vaoMode instanced sub) = []"
  "enabledLocs (issueCalls p vaoMode instanced sub) = []"
  by (simp_all add: issueCalls_def split: option.splits)

lemma filter_draw_issueCalls:
  "filter isDrawCall (issueCalls p vaoMode instanced sub) =
     (if instanceCount p = 0 then
        [case indexBufferBinding p of
           Some ib \<Rightarrow> DrawElements (topology sub) (count sub) (glIndexType p) (start sub)
         | None \<Rightarrow> DrawArrays (topology sub) (start sub) (count sub)]
      else if instanced then
        [case indexBufferBinding p of
           Some ib \<Rightarrow> DrawElementsInstanced (topology sub) (count sub) (glIndexType p)
                       (start sub) (instanceCount p)
         | None \<Rightarrow> DrawArraysInstanced (topology sub) (start sub) (count sub) (instanceCount p)]
      else [])"
  by (simp add: issueCalls_def split: option.splits)

lemma issueCalls_vao_draw: "list_all isDrawCall (issueCalls p True instanced sub)"
  by (simp add: issueCalls_def split: option.splits)

lemma issueCalls_no_vertexArray:
  "list_all (\<lambda>c. \<not> isVertexArrayCall c) (issueCalls p vaoMode instanced sub)"
  by (simp add: issueCalls_def split: option.splits)

lemma issueCalls_unsupported:
  "instanceCount p \<noteq> 0 \<Longrightarrow> issueCalls p vaoMode False sub = []"
  by (simp add: issueCalls_def)

lemma issueCalls_indexed:
  "indexBufferBinding p = Some ib \<Longrightarrow> instanceCount p = 0 \<or> instanced \<Longrightarrow>
   issueCalls p False instanced sub =
     [BindBuffer ELEMENT_ARRAY_BUFFER (Some (nativeBuffer (IndexBufferBinding.buffer ib))),
      (if instanceCount p = 0
       then DrawElements (topology sub) (count sub) (glIndexType p) (start sub)
       else DrawElementsInstanced (topology sub) (count sub) (glIndexType p) (start sub)
              (instanceCount p)),
      BindBuffer ELEMENT_ARRAY_BUFFER None]"
  by (auto simp: issueCalls_def)

lemma newCalls_drawIssue:
  "newCalls s (drawIssue sub s) = issueCalls (primitive s) (useVao s) (canUseInstancedArrays s) sub"
  by (simp add: drawIssue_eq newCalls_def)

section \<open>Lemmas: runs of draw calls\<close>

lemma draw_step:
  "useVao (stateAfter (draw sp sub s)) = useVao s"
  "gl (stateAfter (draw sp sub s)) = gl s @ newCalls s (stateAfter (draw sp sub s))"
  "vao (stateAfter (draw sp sub s)) =
     vao s @ (if useVao s \<and> \<not> Map_has (vao s) (programId sp) \<and> returned (draw sp sub s)
              then [(programId sp, glNextVertexArray s)] else [])"
  "filter isCreateVertexArray (newCalls s (stateAfter (draw sp sub s))) =
     (if useVao s \<and> \<not> Map_has (vao s) (programId sp)
      then [CreateVertexArray (glNextVertexArray s)] else [])"
  "filter isDeleteVertexArray (newCalls s (stateAfter (draw sp sub s))) = []"
  "filter isDrawCall (newCalls s (stateAfter (draw sp sub s))) =
     (if returned (draw sp sub s)
      then filter isDrawCall (issueCalls (primitive s) (useVao s) (canUseInstancedArrays s) sub)
      else [])"
  by (cases rule: draw_cases[of s sp sub]; simp add: newCalls_def)+

lemma newCalls_trans:
  "gl s1 = gl s @ newCalls s s1 \<Longrightarrow> gl s2 = gl s1 @ newCalls s1 s2 \<Longrightarrow>
     newCalls s s2 = newCalls s s1 @ newCalls s1 s2"
  by (metis append_eq_conv_conj newCalls_def append_assoc)

lemma drawAll_steps:
  "useVao (stateAfter (drawAll steps s)) = useVao s
   \<and> gl (stateAfter (drawAll steps s)) = gl s @ newCalls s (stateAfter (drawAll steps s))
   \<and> vao (stateAfter (drawAll steps s))
       = vao s @ drop (length (vao s)) (vao (stateAfter (drawAll steps s)))
   \<and> filter isDeleteVertexArray (newCalls s (stateAfter (drawAll steps s))) = []"
proof (induction steps arbitrary: s)
  case Nil
  then show ?case by (simp add: newCalls_def)
next
  case (Cons step rest)
  obtain p sp sub where step: "step = (p, sp, sub)" by (cases step)
  let ?s0 = "s\<lparr>primitive := p\<rparr>"
  note one = draw_step[where sp = sp and sub = sub and s = "?s0"]
  have g0: "newCalls ?s0 t = newCalls s t" for t by (simp add: newCalls_def)
  show ?case
  proof (cases "draw sp sub ?s0")
    case (Threw e s1)
    with one step show ?thesis
      by (simp add: andThen_def g0 split: if_splits)
  next
    case (Returned s1)
    note ih = Cons.IH[of s1]
    let ?s' = "stateAfter (drawAll rest s1)"
    have r: "drawAll (step # rest) s = drawAll rest s1"
      using Returned step by (simp add: andThen_def)
    have g: "gl s1 = gl s @ newCalls s s1" using one(2) Returned g0 by simp
    have n: "newCalls s ?s' = newCalls s s1 @ newCalls s1 ?s'"
      using g ih by (intro newCalls_trans) simp_all
    have v1: "vao s1 = vao s @ (if useVao s \<and> \<not> Map_has (vao s) (programId sp)
                            then [(programId sp, glNextVertexArray s)] else [])"
      using one(3) Returned by simp
    have v: "vao ?s' = vao s @ drop (length (vao s)) (vao ?s')"
      using ih v1 by (metis append_assoc append_eq_conv_conj)
    from ih one n g v v1 Returned step r show ?thesis
      by (simp add: g0)
  qed
qed

section \<open>Lemmas: the concrete inputs\<close>

lemma example_bindable:
  "bindable (examplePrimitive n) (attributeLocation exampleShader)"
  by (simp add: bindable_def throwsAt_def examplePrimitive_def attributes_def objectPrototypeNames_def Array_at_def
      exampleShader_def exampleElement_def)

lemma example_returns:
  "\<exists>s'. draw exampleShader exampleSub (construct instanced vaoMode cs h l (examplePrimitive n))
         = Returned s'"
  using draw_returns[of exampleShader exampleSub
          "construct instanced vaoMode cs h l (examplePrimitive n)"] example_bindable[of n]
  by (simp add: returned_iff construct_def)

lemma example_bind:
  "bindBufferAndAttrib exampleShader (construct False False [] 0 [] (examplePrimitive n)) =
     Returned ((construct False False [] 0 [] (examplePrimitive n))
            \<lparr>attribLocArray := Some [0],
             gl := [BindBuffer ARRAY_BUFFER (Some 7), EnableVertexAttribArray 0,
                    VertexAttribPointer 0 3 5126 False 12 0, BindBuffer ARRAY_BUFFER None],
             logger := [LoggerWarn ''vertex attribute not found: NORMAL'']\<rparr>)"
  by (simp add: bindBufferAndAttrib_def andThen_def construct_def Let_def glCall_def
      Logger_warn_def examplePrimitive_def attributes_def objectPrototypeNames_def Array_at_def exampleShader_def exampleElement_def)

section \<open>Lemmas: the index buffer\<close>

text \<open>
  Where the index buffer is bound. Without VAO support, a returning \<^verbatim>\<open>draw\<close> of a primitive with an index
  buffer that issues a draw call (instance count 0, or instanced arrays supported) issues,
  right after the calls of \<^verbatim>\<open>bindBufferAndAttrib\<close>: bind the native index buffer to
  \<open>ELEMENT_ARRAY_BUFFER\<close>, the \<open>DrawElements\<close> or \<open>DrawElementsInstanced\<close> call, bind
  null to \<open>ELEMENT_ARRAY_BUFFER\<close>; then come the disable calls. With VAO support,
  \<^verbatim>\<open>registerVAO\<close> binds the index buffer of the primitive, if it has one, once, right
  after binding the new VAO and before unbinding it; everything \<^verbatim>\<open>draw\<close> itself issues
  after that is the VAO binding, draw calls and the null binding, so no buffer is bound
  outside \<^verbatim>\<open>registerVAO\<close>.
\<close>

lemma index_buffer_binding:
  "(\<forall>s' ib. \<not> useVao s \<and> draw sp sub s = Returned s'
        \<and> indexBufferBinding (primitive s) = Some ib
        \<and> (instanceCount (primitive s) = 0 \<or> canUseInstancedArrays s) \<longrightarrow>
      (\<exists>s1 locs. bindBufferAndAttrib sp s = Returned s1 \<and> attribLocArray s1 = Some locs
         \<and> newCalls s s' = newCalls s s1
             @ [BindBuffer ELEMENT_ARRAY_BUFFER (Some (nativeBuffer (IndexBufferBinding.buffer ib))),
                (if instanceCount (primitive s) = 0
                 then DrawElements (topology sub) (count sub) (glIndexType (primitive s)) (start sub)
                 else DrawElementsInstanced (topology sub) (count sub) (glIndexType (primitive s))
                        (start sub) (instanceCount (primitive s))),
                BindBuffer ELEMENT_ARRAY_BUFFER None]
             @ map DisableVertexAttribArray locs))
   \<and> (\<forall>s1. registerVAO sp s = Returned s1 \<longrightarrow>
        (\<exists>setup locs.
           newCalls s s1 =
             [CreateVertexArray (glNextVertexArray s), BindVertexArray (Some (glNextVertexArray s))]
             @ (case indexBufferBinding (primitive s) of
                  Some ib \<Rightarrow> [BindBuffer ELEMENT_ARRAY_BUFFER
                                (Some (nativeBuffer (IndexBufferBinding.buffer ib)))]
                | None \<Rightarrow> [])
             @ setup
             @ [BindBuffer ARRAY_BUFFER None, BindVertexArray None,
                BindBuffer ELEMENT_ARRAY_BUFFER None]
             @ map DisableVertexAttribArray locs
           \<and> list_all isAttribSetup setup))
   \<and> (\<forall>s'. useVao s \<and> draw sp sub s = Returned s' \<longrightarrow>
        (\<exists>s1. (if Map_has (vao s) (programId sp) then s1 = s else registerVAO sp s = Returned s1)
           \<and> newCalls s s' = newCalls s s1
                @ [BindVertexArray (Map_get (vao s1) (programId sp))]
                @ newCalls s (drawIssue sub s) @ [BindVertexArray None]
           \<and> list_all isDrawCall (newCalls s (drawIssue sub s))))"
proof (intro conjI allI impI)
  fix s' ib
  assume a: "\<not> useVao s \<and> draw sp sub s = Returned s'
        \<and> indexBufferBinding (primitive s) = Some ib
        \<and> (instanceCount (primitive s) = 0 \<or> canUseInstancedArrays s)"
  show "\<exists>s1 locs. bindBufferAndAttrib sp s = Returned s1 \<and> attribLocArray s1 = Some locs
         \<and> newCalls s s' = newCalls s s1
             @ [BindBuffer ELEMENT_ARRAY_BUFFER (Some (nativeBuffer (IndexBufferBinding.buffer ib))),
                (if instanceCount (primitive s) = 0
                 then DrawElements (topology sub) (count sub) (glIndexType (primitive s)) (start sub)
                 else DrawElementsInstanced (topology sub) (count sub) (glIndexType (primitive s))
                        (start sub) (instanceCount (primitive s))),
                BindBuffer ELEMENT_ARRAY_BUFFER None]
             @ map DisableVertexAttribArray locs"
  proof (cases rule: draw_cases[of s sp sub])
    case direct
    with a show ?thesis
      by (auto simp: bindBufferAndAttrib_eq newCalls_def issueCalls_indexed[of _ ib])
  qed (use a in simp_all)
next
  fix s1 assume "registerVAO sp s = Returned s1"
  then show "\<exists>setup locs.
           newCalls s s1 =
             [CreateVertexArray (glNextVertexArray s), BindVertexArray (Some (glNextVertexArray s))]
             @ (case indexBufferBinding (primitive s) of
                  Some ib \<Rightarrow> [BindBuffer ELEMENT_ARRAY_BUFFER
                                (Some (nativeBuffer (IndexBufferBinding.buffer ib)))]
                | None \<Rightarrow> [])
             @ setup
             @ [BindBuffer ARRAY_BUFFER None, BindVertexArray None,
                BindBuffer ELEMENT_ARRAY_BUFFER None]
             @ map DisableVertexAttribArray locs
           \<and> list_all isAttribSetup setup"
    using attribCalls_setup[of "primitive s" "canUseInstancedArrays s" "attributeLocation sp" None]
    by (intro exI[where x = "attribCalls (primitive s) (canUseInstancedArrays s)
                               (attributeLocation sp) None"]
              exI[where x = "map snd (effective (primitive s) (attributeLocation sp))"])
       (auto simp: registerVAO_eq newCalls_def elementBind_def split: if_splits)
next
  fix s' assume a: "useVao s \<and> draw sp sub s = Returned s'"
  show "\<exists>s1. (if Map_has (vao s) (programId sp) then s1 = s else registerVAO sp s = Returned s1)
           \<and> newCalls s s' = newCalls s s1
                @ [BindVertexArray (Map_get (vao s1) (programId sp))]
                @ newCalls s (drawIssue sub s) @ [BindVertexArray None]
           \<and> list_all isDrawCall (newCalls s (drawIssue sub s))"
  proof (cases rule: draw_cases[of s sp sub])
    case cached
    with a show ?thesis
      by (simp add: newCalls_drawIssue issueCalls_vao_draw) (auto simp: newCalls_def)
  next
    case register
    with a show ?thesis
      by (simp add: newCalls_drawIssue issueCalls_vao_draw registerVAO_eq Map_set_absent
          Map_get_append_absent)
         (auto simp: newCalls_def)
  qed (use a in simp_all)
qed

text \<open>On the example primitive: the calls of one indexed draw without VAO support.\<close>

lemma index_buffer_binding_example:
  "\<exists>s'. draw exampleShader exampleSub (construct False False [] 0 [] (examplePrimitive 0))
          = Returned s'
     \<and> newCalls (construct False False [] 0 [] (examplePrimitive 0)) s' =
         [BindBuffer ARRAY_BUFFER (Some 7), EnableVertexAttribArray 0,
          VertexAttribPointer 0 3 5126 False 12 0, BindBuffer ARRAY_BUFFER None,
          BindBuffer ELEMENT_ARRAY_BUFFER (Some 9), DrawElements 4 36 5123 0,
          BindBuffer ELEMENT_ARRAY_BUFFER None, DisableVertexAttribArray 0]"
proof -
  let ?s = "construct False False [] 0 [] (examplePrimitive 0)"
  from example_returns obtain s' where h: "draw exampleShader exampleSub ?s = Returned s'"
    by blast
  have a: "\<not> useVao ?s \<and> draw exampleShader exampleSub ?s = Returned s'
        \<and> indexBufferBinding (primitive ?s) = Some \<lparr>IndexBufferBinding.buffer = \<lparr>nativeBuffer = 9\<rparr>\<rparr>
        \<and> (instanceCount (primitive ?s) = 0 \<or> canUseInstancedArrays ?s)"
    using h by (simp add: construct_def examplePrimitive_def attributes_def objectPrototypeNames_def Array_at_def)
  from index_buffer_binding[of ?s exampleShader exampleSub] a
  obtain s1 locs where
    "bindBufferAndAttrib exampleShader ?s = Returned s1" "attribLocArray s1 = Some locs"
    "newCalls ?s s' = newCalls ?s s1
       @ [BindBuffer ELEMENT_ARRAY_BUFFER
            (Some (nativeBuffer (IndexBufferBinding.buffer \<lparr>IndexBufferBinding.buffer = \<lparr>nativeBuffer = 9\<rparr>\<rparr>))),
          (if instanceCount (primitive ?s) = 0
           then DrawElements (topology exampleSub) (count exampleSub) (glIndexType (primitive ?s))
                  (start exampleSub)
           else DrawElementsInstanced (topology exampleSub) (count exampleSub)
                  (glIndexType (primitive ?s)) (start exampleSub) (instanceCount (primitive ?s))),
          BindBuffer ELEMENT_ARRAY_BUFFER None]
       @ map DisableVertexAttribArray locs"
    by blast
  with example_bind[of 0] have "newCalls ?s s' =
         [BindBuffer ARRAY_BUFFER (Some 7), EnableVertexAttribArray 0,
          VertexAttribPointer 0 3 5126 False 12 0, BindBuffer ARRAY_BUFFER None,
          BindBuffer ELEMENT_ARRAY_BUFFER (Some 9), DrawElements 4 36 5123 0,
          BindBuffer ELEMENT_ARRAY_BUFFER None, DisableVertexAttribArray 0]"
    by (auto simp: newCalls_def construct_def examplePrimitive_def attributes_def objectPrototypeNames_def Array_at_def exampleSub_def)
  with h show ?thesis by blast
qed

section \<open>Lemmas: what the loop specifies\<close>


lemma issueCalls_no_setup [simp]:
  "filter isAttribSetup (issueCalls p vaoMode instanced sub) = []"
  by (simp add: issueCalls_def split: option.splits)

section \<open>Lemmas: runs that go on after a throw\<close>

lemma registerVAO_returns:
  "returned (registerVAO sp s) \<longleftrightarrow> bindable (primitive s) (attributeLocation sp)"
  by (simp add: registerVAO_eq)

lemma drawSeq_steps:
  "useVao (drawSeq steps s) = useVao s
   \<and> gl (drawSeq steps s) = gl s @ newCalls s (drawSeq steps s)
   \<and> vao (drawSeq steps s)
       = vao s @ map (\<lambda>(k, h, ok). (k, h)) (filter (\<lambda>(k, h, ok). ok) (registrations steps s))
   \<and> filter isCreateVertexArray (newCalls s (drawSeq steps s))
       = map (\<lambda>(k, h, ok). CreateVertexArray h) (registrations steps s)"
proof (induction steps arbitrary: s)
  case Nil
  then show ?case by (simp add: newCalls_def)
next
  case (Cons step rest)
  obtain p sp sub where step: "step = (p, sp, sub)" by (cases step)
  let ?s0 = "s\<lparr>primitive := p\<rparr>"
  let ?s1 = "stateAfter (draw sp sub ?s0)"
  note one = draw_step[where sp = sp and sub = sub and s = "?s0"]
  note ih = Cons.IH[of ?s1]
  have g0: "newCalls ?s0 t = newCalls s t" for t by (simp add: newCalls_def)
  have r: "returned (draw sp sub ?s0) = returned (registerVAO sp ?s0)"
    if "useVao s" "\<not> Map_has (vao s) (programId sp)"
    using that by (simp add: draw_returns registerVAO_returns)
  have g: "gl ?s1 = gl s @ newCalls s ?s1" using one(2) g0 by simp
  have n: "newCalls s (drawSeq rest ?s1) = newCalls s ?s1 @ newCalls ?s1 (drawSeq rest ?s1)"
    using g ih by (intro newCalls_trans) simp_all
  have v: "vao ?s1 = vao s @ (if useVao s \<and> \<not> Map_has (vao s) (programId sp)
                                  \<and> returned (registerVAO sp ?s0)
                               then [(programId sp, glNextVertexArray s)] else [])"
    using one(3) r by auto
  have c: "filter isCreateVertexArray (newCalls s ?s1) =
             (if useVao s \<and> \<not> Map_has (vao s) (programId sp)
              then [CreateVertexArray (glNextVertexArray s)] else [])"
    using one(4) g0 by simp
  from ih one(1) g n v c step show ?case
    by simp
qed

lemma registrations_fresh:
  "(k, h, ok) \<in> set (registrations steps s) \<Longrightarrow> \<not> Map_has (vao s) k"
proof (induction steps arbitrary: s)
  case Nil
  then show ?case by simp
next
  case (Cons step rest)
  obtain p sp sub where step: "step = (p, sp, sub)" by (cases step)
  let ?s1 = "stateAfter (draw sp sub (s\<lparr>primitive := p\<rparr>))"
  note one = draw_step[where sp = sp and sub = sub and s = "s\<lparr>primitive := p\<rparr>"]
  from Cons.prems step consider
      "useVao s" "\<not> Map_has (vao s) (programId sp)" "k = programId sp"
    | "(k, h, ok) \<in> set (registrations rest ?s1)"
    by (auto split: if_splits)
  then show ?case
  proof cases
    case 1
    then show ?thesis by simp
  next
    case 2
    from Cons.IH[OF 2] one(3) show ?thesis
      by (auto simp: Map_has_append split: if_splits)
  qed
qed

text \<open>Once \<^verbatim>\<open>registerVAO\<close> has returned for a program id, the run does not enter it for
  that id again.\<close>

lemma registrations_once:
  "registrations steps s = xs @ (k, h, True) # ys \<Longrightarrow> k \<notin> fst ` set ys"
proof (induction steps arbitrary: s xs)
  case Nil
  then show ?case by simp
next
  case (Cons step rest)
  obtain p sp sub where step: "step = (p, sp, sub)" by (cases step)
  let ?s0 = "s\<lparr>primitive := p\<rparr>"
  let ?s1 = "stateAfter (draw sp sub ?s0)"
  note one = draw_step[where sp = sp and sub = sub and s = "?s0"]
  show ?case
  proof (cases "useVao s \<and> \<not> Map_has (vao s) (programId sp)")
    case False
    with Cons.prems step have "registrations rest ?s1 = xs @ (k, h, True) # ys"
      by auto
    from Cons.IH[OF this] show ?thesis .
  next
    case True
    with Cons.prems step have e:
      "(programId sp, glNextVertexArray s, returned (registerVAO sp ?s0)) # registrations rest ?s1
         = xs @ (k, h, True) # ys"
      by simp
    show ?thesis
    proof (cases xs)
      case Nil
      with e have k: "k = programId sp" "returned (registerVAO sp ?s0)"
        and ys: "ys = registrations rest ?s1"
        by simp_all
      from k True have "returned (draw sp sub ?s0)"
        by (simp add: draw_returns registerVAO_returns)
      with one(3) True k have "Map_has (vao ?s1) k"
        by (simp add: Map_has_append Map_has_def)
      with registrations_fresh[of k _ _ rest ?s1] ys show ?thesis
        by force
    next
      case (Cons x xs')
      with e have "registrations rest ?s1 = xs' @ (k, h, True) # ys" by simp
      from Cons.IH[OF this] show ?thesis .
    qed
  qed
qed

lemma drawSeq_keeps:
  "Map_get (vao s) k = Some v \<Longrightarrow> Map_get (vao (drawSeq steps s)) k = Some v"
  using drawSeq_steps[of steps s] by (simp add: Map_get_append_Some)

text \<open>A registration that has returned has stored its VAO under the program id, and the
  run keeps it there.\<close>

lemma registrations_cached:
  "(k, h, True) \<in> set (registrations steps s) \<Longrightarrow> Map_get (vao (drawSeq steps s)) k = Some h"
proof (induction steps arbitrary: s)
  case Nil
  then show ?case by simp
next
  case (Cons step rest)
  obtain p sp sub where step: "step = (p, sp, sub)" by (cases step)
  let ?s0 = "s\<lparr>primitive := p\<rparr>"
  let ?s1 = "stateAfter (draw sp sub ?s0)"
  note one = draw_step[where sp = sp and sub = sub and s = "?s0"]
  from Cons.prems step consider
      "useVao s" "\<not> Map_has (vao s) (programId sp)" "k = programId sp"
      "h = glNextVertexArray s" "returned (registerVAO sp ?s0)"
    | "(k, h, True) \<in> set (registrations rest ?s1)"
    by (auto split: if_splits)
  then show ?case
  proof cases
    case 1
    then have "returned (draw sp sub ?s0)"
      by (simp add: draw_returns registerVAO_returns)
    with one(3) 1 have "Map_get (vao ?s1) k = Some h"
      by (simp add: Map_get_append_absent)
    from drawSeq_keeps[OF this, of rest] step show ?thesis by simp
  next
    case 2
    from Cons.IH[OF 2] step show ?thesis by simp
  qed
qed

section \<open>Lemmas: the attributes the loop skips\<close>

text \<open>
  Leaving out the attributes without location and those whose name yields \<^verbatim>\<open>undefined\<close>
  changes nothing but the log: the loop issues the same calls, records the same
  locations and throws at the same attribute.
\<close>

lemma skipped_throwsAt:
  "throwsAt p (name, loc) \<Longrightarrow> loc \<noteq> - 1 \<and> attributes p name \<noteq> Undefined"
  by (auto simp: throwsAt_def)

lemma reached_skipped:
  "reached p (filter (\<lambda>(name, loc). loc \<noteq> - 1 \<and> attributes p name \<noteq> Undefined) attrs)
     = filter (\<lambda>(name, loc). loc \<noteq> - 1 \<and> attributes p name \<noteq> Undefined) (reached p attrs)"
proof (induction attrs)
  case Nil
  then show ?case by (simp add: reached_def)
next
  case (Cons a rest)
  then show ?case by (auto simp: reached_Cons dest: skipped_throwsAt)
qed

lemma bindable_skipped:
  "bindable p (filter (\<lambda>(name, loc). loc \<noteq> - 1 \<and> attributes p name \<noteq> Undefined) attrs)
     = bindable p attrs"
  by (induction attrs) (auto simp: bindable_def dest: skipped_throwsAt)

lemma attribCalls_skipped:
  "attribCalls p instanced
     (filter (\<lambda>(name, loc). loc \<noteq> - 1 \<and> attributes p name \<noteq> Undefined) attrs) lastBoundVbo
     = attribCalls p instanced attrs lastBoundVbo"
proof (induction attrs arbitrary: lastBoundVbo)
  case Nil
  then show ?case by simp
next
  case (Cons a rest)
  obtain name loc where a: "a = (name, loc)" by (cases a)
  from Cons.IH a show ?case
    by (auto simp: Let_def split: property.splits option.splits)
qed

lemma effective_skipped:
  "effective p (filter (\<lambda>(name, loc). loc \<noteq> - 1 \<and> attributes p name \<noteq> Undefined) attrs)
     = effective p attrs"
  by (induction attrs) (auto simp: effective_def attributes_iff)

lemma unmatched_skipped:
  "unmatched p (filter (\<lambda>(name, loc). loc \<noteq> - 1 \<and> attributes p name \<noteq> Undefined) attrs) = []"
  by (induction attrs) (auto simp: unmatched_def)

lemma bindBufferAndAttrib_skips:
  "bindBufferAndAttrib
     (sp\<lparr>attributeLocation :=
           filter (\<lambda>(name, loc). loc \<noteq> - 1 \<and> attributes (primitive s) name \<noteq> Undefined)
             (attributeLocation sp)\<rparr>) s
     = (case bindBufferAndAttrib sp s of
          Returned s1 \<Rightarrow> Returned (s1\<lparr>logger := logger s\<rparr>)
        | Threw e s1 \<Rightarrow> Threw e (s1\<lparr>logger := logger s\<rparr>))"
  by (simp add: bindBufferAndAttrib_eq bindable_skipped attribCalls_skipped effective_skipped
      reached_skipped unmatched_skipped attribWarnings_def)

text \<open>
  When \<^verbatim>\<open>bindBufferAndAttrib\<close> returns, \<^verbatim>\<open>attribLocArray\<close> holds the locations it has
  enabled, in order, and the log has grown by one warning for each attribute with a
  location whose name yields \<^verbatim>\<open>undefined\<close>.
\<close>

lemma bindBufferAndAttrib_records:
  "bindBufferAndAttrib sp s = Returned s1 \<Longrightarrow>
     attribLocArray s1 = Some (enabledLocs (newCalls s s1))
     \<and> logger s1 = logger s @ attribWarnings (primitive s) (attributeLocation sp)"
  by (auto simp: bindBufferAndAttrib_eq newCalls_def attribCalls_enabled reached_bindable
      split: if_splits)

section \<open>The claims\<close>

text \<open>
  Claim C1. A call of \<^verbatim>\<open>draw\<close> that issues a GL draw call issues exactly one, chosen by
  \<^verbatim>\<open>instanceCount\<close> and \<^verbatim>\<open>indexBufferBinding\<close>: with \<^verbatim>\<open>instanceCount\<close> 0,
  \<open>DrawElements topology count glIndexType start\<close> when there is an index buffer
  binding and \<open>DrawArrays topology start count\<close> otherwise; with \<^verbatim>\<open>instanceCount\<close>
  other than 0 and instanced arrays supported, \<open>DrawElementsInstanced\<close> or
  \<open>DrawArraysInstanced\<close> with the instance count as last argument. Without that support,
  and when the call throws, no draw call is issued. The calls \<^verbatim>\<open>draw\<close> adds to the
  context, whether it returns or throws, are \<open>newCalls s (stateAfter (draw sp sub s))\<close>.
\<close>

theorem draw_issues_selected_call:
  "gl (stateAfter (draw sp sub s)) = gl s @ newCalls s (stateAfter (draw sp sub s))
   \<and> filter isDrawCall (newCalls s (stateAfter (draw sp sub s))) =
       (if \<not> returned (draw sp sub s) then []
        else if instanceCount (primitive s) = 0 then
          [case indexBufferBinding (primitive s) of
             Some ib \<Rightarrow> DrawElements (topology sub) (count sub) (glIndexType (primitive s))
                         (start sub)
           | None \<Rightarrow> DrawArrays (topology sub) (start sub) (count sub)]
        else if canUseInstancedArrays s then
          [case indexBufferBinding (primitive s) of
             Some ib \<Rightarrow> DrawElementsInstanced (topology sub) (count sub)
                         (glIndexType (primitive s)) (start sub) (instanceCount (primitive s))
           | None \<Rightarrow> DrawArraysInstanced (topology sub) (start sub) (count sub)
                      (instanceCount (primitive s))]
        else [])"
proof
  show "gl (stateAfter (draw sp sub s)) = gl s @ newCalls s (stateAfter (draw sp sub s))"
    by (rule draw_step)
  show "filter isDrawCall (newCalls s (stateAfter (draw sp sub s))) =
       (if \<not> returned (draw sp sub s) then []
        else if instanceCount (primitive s) = 0 then
          [case indexBufferBinding (primitive s) of
             Some ib \<Rightarrow> DrawElements (topology sub) (count sub) (glIndexType (primitive s))
                         (start sub)
           | None \<Rightarrow> DrawArrays (topology sub) (start sub) (count sub)]
        else if canUseInstancedArrays s then
          [case indexBufferBinding (primitive s) of
             Some ib \<Rightarrow> DrawElementsInstanced (topology sub) (count sub)
                         (glIndexType (primitive s)) (start sub) (instanceCount (primitive s))
           | None \<Rightarrow> DrawArraysInstanced (topology sub) (start sub) (count sub)
                      (instanceCount (primitive s))]
        else [])"
    by (simp add: draw_step(6) filter_draw_issueCalls)
qed

text \<open>C1 on the example primitive, without VAO support: the one draw call is the indexed one.\<close>

theorem draw_issues_selected_call_witness:
  "filter isDrawCall
     (newCalls (construct False False [] 0 [] (examplePrimitive 0))
        (stateAfter (draw exampleShader exampleSub
                       (construct False False [] 0 [] (examplePrimitive 0)))))
     = [DrawElements 4 36 5123 0]"
proof -
  let ?s = "construct False False [] 0 [] (examplePrimitive 0)"
  have "returned (draw exampleShader exampleSub ?s)"
    using example_returns[of False False "[]" 0 "[]" 0] by (auto simp: returned_iff)
  with draw_issues_selected_call[of exampleShader exampleSub ?s] show ?thesis
    by (simp add: construct_def examplePrimitive_def attributes_def objectPrototypeNames_def Array_at_def exampleSub_def)
qed




text \<open>
  Claim C3. \<^verbatim>\<open>ShaderPool.init\<close> calls \<^verbatim>\<open>Shader.create\<close> for six fixed programs, in this
  order and with these names and sources, whatever \<open>create\<close> does and whatever the
  registry holds; the program \<open>shadow\<close> pairs the shadow-map vertex shader with the
  shadow fragment shader. With the recording \<open>create\<close> the six calls appear as such.
\<close>

theorem init_registers_builtin_shaders:
  "init create r =
     createAll create
       [(''blinn-phong'', blinnPhongVs, blinnPhongFs),
        (''pbr'', pbrVs, pbrFs),
        (''shadow-map'', shadowMapVs, shadowMapFs),
        (''shadow'', shadowMapVs, shadowFs),
        (''skybox'', skyboxVs, skyboxFs),
        (''particle-shader'', particleVs, particleFs)] r
   \<and> init recordCreate calls =
       Inr (calls @
         [(''blinn-phong'', blinnPhongVs, blinnPhongFs),
          (''pbr'', pbrVs, pbrFs),
          (''shadow-map'', shadowMapVs, shadowMapFs),
          (''shadow'', shadowMapVs, shadowFs),
          (''skybox'', skyboxVs, skyboxFs),
          (''particle-shader'', particleVs, particleFs)])"
  by (simp add: init_def bindE_def recordCreate_def split: sum.splits)

text \<open>
  Claim C4. A \<^verbatim>\<open>draw\<close> with \<^verbatim>\<open>instanceCount\<close> other than 0 on an object without instanced
  arrays issues no draw call, whether it returns or throws. Once its binding step (lines
  39 to 47) has returned, the middle part does nothing but log the one error, and the
  call returns: what it leaves is what the binding step left, with that entry added to
  the log and the calls of the unbinding step (lines 85 to 89) added to the context; the
  map, the recorded locations and the next VAO handle are untouched. The call throws
  only when the binding step has thrown, before the branch is reached, and leaves then
  what the binding step left; the instancing plays no part in that, since the same call
  for instance count 0, and the same call with instanced arrays supported, throw or
  return alike.
\<close>

theorem draw_unsupported_instancing:
  assumes "instanceCount (primitive s) \<noteq> 0" and "\<not> canUseInstancedArrays s"
  shows "filter isDrawCall (newCalls s (stateAfter (draw sp sub s))) = []
     \<and> (\<forall>s1. drawBind sp s = Returned s1 \<longrightarrow>
          drawIssue sub s1
            = s1\<lparr>logger := logger s1
                   @ [LoggerError ''ANGLE_instanced_arrays extension is not supported'']\<rparr>
          \<and> (\<exists>locs. (\<not> useVao s \<longrightarrow> attribLocArray s1 = Some locs)
                \<and> draw sp sub s =
                    Returned
                      (s1\<lparr>gl := gl s1 @ (if useVao s then [BindVertexArray None]
                                           else map DisableVertexAttribArray locs),
                          logger := logger s1
                            @ [LoggerError ''ANGLE_instanced_arrays extension is not supported'']\<rparr>)))
     \<and> (\<forall>e s1. drawBind sp s = Threw e s1 \<longrightarrow> draw sp sub s = Threw e s1)
     \<and> (returned (draw sp sub s) \<longleftrightarrow>
          returned (draw sp sub (s\<lparr>primitive := (primitive s)\<lparr>instanceCount := 0\<rparr>\<rparr>)))
     \<and> (returned (draw sp sub s) \<longleftrightarrow>
          returned (draw sp sub (s\<lparr>canUseInstancedArrays := True\<rparr>)))"
proof (intro conjI allI impI)
  show "filter isDrawCall (newCalls s (stateAfter (draw sp sub s))) = []"
    using assms by (simp add: draw_step(6) issueCalls_unsupported)
  show "draw sp sub s = Threw e s1" if "drawBind sp s = Threw e s1" for e s1
    using that by (simp add: draw_def andThen_def)
  have b: "bindable ((primitive s)\<lparr>instanceCount := 0\<rparr>) attrs = bindable (primitive s) attrs"
    for attrs
    by (rule bindable_cong) simp_all
  show "returned (draw sp sub s) \<longleftrightarrow>
          returned (draw sp sub (s\<lparr>primitive := (primitive s)\<lparr>instanceCount := 0\<rparr>\<rparr>))"
    by (simp add: draw_returns b)
  show "returned (draw sp sub s) \<longleftrightarrow>
          returned (draw sp sub (s\<lparr>canUseInstancedArrays := True\<rparr>))"
    by (simp add: draw_returns)
next
  fix s1 assume b: "drawBind sp s = Returned s1"
  then have f: "useVao s1 = useVao s" "primitive s1 = primitive s"
    "canUseInstancedArrays s1 = canUseInstancedArrays s"
    "\<not> useVao s \<longrightarrow>
       attribLocArray s1 = Some (map snd (effective (primitive s) (attributeLocation sp)))"
    by (auto simp: drawBind_def andThen_def registerVAO_eq bindBufferAndAttrib_eq glCall_def
        split: if_splits)
  show i: "drawIssue sub s1
             = s1\<lparr>logger := logger s1
                    @ [LoggerError ''ANGLE_instanced_arrays extension is not supported'']\<rparr>"
    using assms f by (simp add: drawIssue_eq issueCalls_unsupported issueLog_def)
  have d: "draw sp sub s = drawUnbind (drawIssue sub s1)"
    using b by (simp add: draw_def andThen_def)
  show "\<exists>locs. (\<not> useVao s \<longrightarrow> attribLocArray s1 = Some locs)
          \<and> draw sp sub s =
              Returned
                (s1\<lparr>gl := gl s1 @ (if useVao s then [BindVertexArray None]
                                     else map DisableVertexAttribArray locs),
                    logger := logger s1
                      @ [LoggerError ''ANGLE_instanced_arrays extension is not supported'']\<rparr>)"
    using f
    by (intro exI[where x = "map snd (effective (primitive s) (attributeLocation sp))"])
       (auto simp: d i drawUnbind_def disableAttrib_def glCall_def)
qed

text \<open>
  C4 on the example primitive with two instances: the binding step returns, the call
  returns, and it has logged the warning of the binding step and then the one error; the
  context has seen the calls of the binding step and the one disable call.
\<close>

theorem draw_unsupported_instancing_witness:
  "instanceCount (primitive (construct False False [] 0 [] (examplePrimitive 2))) \<noteq> 0
   \<and> \<not> canUseInstancedArrays (construct False False [] 0 [] (examplePrimitive 2))
   \<and> draw exampleShader exampleSub (construct False False [] 0 [] (examplePrimitive 2)) =
       Returned ((construct False False [] 0 [] (examplePrimitive 2))
              \<lparr>attribLocArray := Some [0],
               gl := [BindBuffer ARRAY_BUFFER (Some 7), EnableVertexAttribArray 0,
                      VertexAttribPointer 0 3 5126 False 12 0, BindBuffer ARRAY_BUFFER None,
                      DisableVertexAttribArray 0],
               logger := [LoggerWarn ''vertex attribute not found: NORMAL'',
                          LoggerError ''ANGLE_instanced_arrays extension is not supported'']\<rparr>)"
proof -
  let ?s = "construct False False [] 0 [] (examplePrimitive 2)"
  have a: "instanceCount (primitive ?s) \<noteq> 0" "\<not> canUseInstancedArrays ?s"
    by (simp_all add: construct_def examplePrimitive_def)
  have b: "drawBind exampleShader ?s = bindBufferAndAttrib exampleShader ?s"
    by (simp add: drawBind_def construct_def)
  have u: "\<not> useVao ?s" by (simp add: construct_def)
  from draw_unsupported_instancing[OF a, of exampleShader exampleSub] b example_bind[of 2] u
  have "\<exists>locs. Some [0] = Some locs
          \<and> draw exampleShader exampleSub ?s =
              Returned
                (?s\<lparr>attribLocArray := Some [0],
                     gl := [BindBuffer ARRAY_BUFFER (Some 7), EnableVertexAttribArray 0,
                            VertexAttribPointer 0 3 5126 False 12 0,
                            BindBuffer ARRAY_BUFFER None] @ map DisableVertexAttribArray locs,
                     logger := [LoggerWarn ''vertex attribute not found: NORMAL'',
                                LoggerError ''ANGLE_instanced_arrays extension is not supported'']\<rparr>)"
    by (simp add: construct_def)
  with a show ?thesis by auto
qed

text \<open>
  C5 as stated fails: VAO support, two draws with program id 1, the first while the
  primitive has no vertex buffer binding. The first call throws inside \<^verbatim>\<open>registerVAO\<close>,
  after \<^verbatim>\<open>createVertexArray\<close> and before the VAO is stored, so the second call enters
  \<^verbatim>\<open>registerVAO\<close> again: two VAOs are created for the one id, and the second is the one
  the map holds.
\<close>

theorem registerVAO_once_per_program_counterexample:
  "registrations retrySteps (construct False True [] 0 [] brokenPrimitive)
     = [(1, 0, False), (1, 1, True)]
   \<and> filter isCreateVertexArray (gl (drawSeq retrySteps (construct False True [] 0 [] brokenPrimitive)))
       = [CreateVertexArray 0, CreateVertexArray 1]
   \<and> vao (drawSeq retrySteps (construct False True [] 0 [] brokenPrimitive)) = [(1, 1)]"
  by (simp add: retrySteps_def construct_def draw_register registerVAO_eq Map_has_def
      bindable_def throwsAt_def reached_def effective_def elementBind_def issueCalls_def
      brokenPrimitive_def examplePrimitive_def exampleShader_def exampleSub_def
      exampleElement_def attributes_def objectPrototypeNames_def Array_at_def)

text \<open>
  Claim C5, amended. In a run of \<^verbatim>\<open>draw\<close> calls, also one that goes on after a call has
  thrown, \<^verbatim>\<open>registerVAO\<close> is entered only for a program id that is not in the map, and
  once it has returned for an id it is never entered for that id again; a
  \<^verbatim>\<open>registerVAO\<close> that throws has stored nothing, and the id may be registered again.
  The run issues one \<^verbatim>\<open>createVertexArray\<close> for each time \<^verbatim>\<open>registerVAO\<close> is entered and
  none besides. The map at the end is the map at the start followed by the VAOs of the
  registrations that returned, each under its id, and a lookup that succeeded at the
  start gives the same VAO at the end. After any such run, a \<^verbatim>\<open>draw\<close> whose program id
  was in the map at its start returns, and the vertex array calls it issues are: bind the
  VAO stored under the id, bind null.
\<close>

theorem registerVAO_once_per_program:
  "(\<forall>k h ok. (k, h, ok) \<in> set (registrations steps s) \<longrightarrow> \<not> Map_has (vao s) k)
   \<and> (\<forall>xs k h ys. registrations steps s = xs @ (k, h, True) # ys \<longrightarrow> k \<notin> fst ` set ys)
   \<and> gl (drawSeq steps s) = gl s @ newCalls s (drawSeq steps s)
   \<and> filter isCreateVertexArray (newCalls s (drawSeq steps s))
       = map (\<lambda>(k, h, ok). CreateVertexArray h) (registrations steps s)
   \<and> vao (drawSeq steps s)
       = vao s @ map (\<lambda>(k, h, ok). (k, h)) (filter (\<lambda>(k, h, ok). ok) (registrations steps s))
   \<and> (\<forall>k h. (k, h, True) \<in> set (registrations steps s) \<longrightarrow>
         Map_get (vao (drawSeq steps s)) k = Some h)
   \<and> (\<forall>k v. Map_get (vao s) k = Some v \<longrightarrow> Map_get (vao (drawSeq steps s)) k = Some v)
   \<and> (\<forall>p sp sub v. useVao s \<and> Map_get (vao s) (programId sp) = Some v \<longrightarrow>
         (\<exists>s'. draw sp sub ((drawSeq steps s)\<lparr>primitive := p\<rparr>) = Returned s'
            \<and> vao s' = vao (drawSeq steps s)
            \<and> filter isVertexArrayCall (newCalls (drawSeq steps s) s')
                = [BindVertexArray (Some v), BindVertexArray None]))"
proof (intro conjI allI impI)
  note all = drawSeq_steps[of steps s]
  show "\<not> Map_has (vao s) k" if "(k, h, ok) \<in> set (registrations steps s)" for k h ok
    using that by (rule registrations_fresh)
  show "k \<notin> fst ` set ys" if "registrations steps s = xs @ (k, h, True) # ys" for xs k h ys
    using that by (rule registrations_once)
  show "gl (drawSeq steps s) = gl s @ newCalls s (drawSeq steps s)"
    using all by blast
  show "filter isCreateVertexArray (newCalls s (drawSeq steps s))
       = map (\<lambda>(k, h, ok). CreateVertexArray h) (registrations steps s)"
    using all by blast
  show "vao (drawSeq steps s)
       = vao s @ map (\<lambda>(k, h, ok). (k, h)) (filter (\<lambda>(k, h, ok). ok) (registrations steps s))"
    using all by blast
  show "Map_get (vao (drawSeq steps s)) k = Some h"
    if "(k, h, True) \<in> set (registrations steps s)" for k h
    using that by (rule registrations_cached)
  show "Map_get (vao (drawSeq steps s)) k = Some v" if "Map_get (vao s) k = Some v" for k v
    using that by (rule drawSeq_keeps)
next
  fix p and sp :: ShaderProgram and sub :: SubPrimitive and v
  assume a: "useVao s \<and> Map_get (vao s) (programId sp) = Some v"
  let ?t = "(drawSeq steps s)\<lparr>primitive := p\<rparr>"
  have u: "useVao ?t" using a drawSeq_steps[of steps s] by simp
  have g: "Map_get (vao ?t) (programId sp) = Some v"
    using a drawSeq_keeps[of s "programId sp" v steps] by simp
  then have h: "Map_has (vao ?t) (programId sp)" by (simp add: Map_has_def Map_get_def)
  have f: "filter isVertexArrayCall (issueCalls p True i sub) = []" for i
    using issueCalls_no_vertexArray[of p True i sub]
    by (auto simp: filter_empty_conv list_all_iff)
  from u h g f show "\<exists>s'. draw sp sub ?t = Returned s'
            \<and> vao s' = vao (drawSeq steps s)
            \<and> filter isVertexArrayCall (newCalls (drawSeq steps s) s')
                = [BindVertexArray (Some v), BindVertexArray None]"
    by (simp add: draw_cached newCalls_def)
qed

text \<open>
  C5 on a run of four draws: program 1 while the primitive has no vertex buffer binding,
  which throws, program 1 again, program 2, program 1 with an instanced primitive.
  \<^verbatim>\<open>registerVAO\<close> is entered three times, the second time for program 1 again, and not
  for program 1 after that; the fourth call finds VAO 1 in the map. A draw with program 1
  after a run that began with VAO 5 stored for it binds VAO 5.
\<close>

theorem registerVAO_once_per_program_witness:
  "registrations (retrySteps @ tl exampleSteps) (construct True True [] 0 [] brokenPrimitive)
     = [(1, 0, False), (1, 1, True), (2, 2, True)]
   \<and> (1::int) \<notin> fst ` set [(2::int, 2::nat, True)]
   \<and> filter isCreateVertexArray
       (newCalls (construct True True [] 0 [] brokenPrimitive)
          (drawSeq (retrySteps @ tl exampleSteps) (construct True True [] 0 [] brokenPrimitive)))
       = [CreateVertexArray 0, CreateVertexArray 1, CreateVertexArray 2]
   \<and> vao (drawSeq (retrySteps @ tl exampleSteps) (construct True True [] 0 [] brokenPrimitive))
       = [(1, 1), (2, 2)]
   \<and> Map_get (vao (drawSeq (retrySteps @ tl exampleSteps)
                      (construct True True [] 0 [] brokenPrimitive))) 1 = Some 1
   \<and> (\<exists>s'. draw exampleShader exampleSub
              ((drawSeq exampleSteps
                  ((construct True True [] 8 [] (examplePrimitive 0))\<lparr>vao := [(1, 5)]\<rparr>))
                 \<lparr>primitive := examplePrimitive 0\<rparr>) = Returned s'
         \<and> filter isVertexArrayCall
              (newCalls (drawSeq exampleSteps
                           ((construct True True [] 8 [] (examplePrimitive 0))\<lparr>vao := [(1, 5)]\<rparr>)) s')
             = [BindVertexArray (Some 5), BindVertexArray None])"
proof -
  let ?s = "construct True True [] 0 [] brokenPrimitive"
  let ?steps = "retrySteps @ tl exampleSteps"
  have r: "registrations ?steps ?s = [(1, 0, False), (1, 1, True), (2, 2, True)]"
    by (simp add: retrySteps_def exampleSteps_def construct_def draw_register draw_cached
        registerVAO_eq Map_has_def otherShader_def
        bindable_def throwsAt_def reached_def effective_def elementBind_def issueCalls_def
        brokenPrimitive_def examplePrimitive_def exampleShader_def exampleSub_def
        exampleElement_def attributes_def objectPrototypeNames_def Array_at_def)
  have e: "vao ?s = []" by (simp add: construct_def)
  note t = registerVAO_once_per_program[of ?steps ?s]
  have o: "registrations ?steps ?s = [(1, 0, False)] @ (1, 1, True) # [(2, 2, True)]"
    using r by simp
  from t have "\<forall>xs k h ys. registrations ?steps ?s = xs @ (k, h, True) # ys \<longrightarrow> k \<notin> fst ` set ys"
    by (elim conjE)
  from this[rule_format, OF o] have once: "(1::int) \<notin> fst ` set [(2::int, 2::nat, True)]" .
  from t have "filter isCreateVertexArray (newCalls ?s (drawSeq ?steps ?s))
       = map (\<lambda>(k, h, ok). CreateVertexArray h) (registrations ?steps ?s)"
    by (elim conjE)
  with r have c: "filter isCreateVertexArray (newCalls ?s (drawSeq ?steps ?s))
       = [CreateVertexArray 0, CreateVertexArray 1, CreateVertexArray 2]"
    by simp
  from t have "vao (drawSeq ?steps ?s)
       = vao ?s @ map (\<lambda>(k, h, ok). (k, h)) (filter (\<lambda>(k, h, ok). ok) (registrations ?steps ?s))"
    by (elim conjE)
  with r e have v: "vao (drawSeq ?steps ?s) = [(1, 1), (2, 2)]"
    by simp
  from t have "\<forall>k h. (k, h, True) \<in> set (registrations ?steps ?s) \<longrightarrow>
         Map_get (vao (drawSeq ?steps ?s)) k = Some h"
    by (elim conjE)
  from this[rule_format, of 1 1] r have m: "Map_get (vao (drawSeq ?steps ?s)) 1 = Some 1"
    by simp
  let ?c = "(construct True True [] 8 [] (examplePrimitive 0))\<lparr>vao := [(1, 5)]\<rparr>"
  have "useVao ?c \<and> Map_get (vao ?c) (programId exampleShader) = Some 5"
    by (simp add: construct_def Map_get_def exampleShader_def)
  moreover from registerVAO_once_per_program[of exampleSteps ?c]
  have "\<forall>p sp sub v. useVao ?c \<and> Map_get (vao ?c) (programId sp) = Some v \<longrightarrow>
         (\<exists>s'. draw sp sub ((drawSeq exampleSteps ?c)\<lparr>primitive := p\<rparr>) = Returned s'
            \<and> vao s' = vao (drawSeq exampleSteps ?c)
            \<and> filter isVertexArrayCall (newCalls (drawSeq exampleSteps ?c) s')
                = [BindVertexArray (Some v), BindVertexArray None])"
    by (elim conjE)
  ultimately
  have d: "\<exists>s'. draw exampleShader exampleSub
              ((drawSeq exampleSteps ?c)\<lparr>primitive := examplePrimitive 0\<rparr>) = Returned s'
         \<and> filter isVertexArrayCall (newCalls (drawSeq exampleSteps ?c) s')
             = [BindVertexArray (Some 5), BindVertexArray None]"
    by blast
  from r once c v m d show ?thesis by blast
qed

text \<open>
  Claim C6: \<^verbatim>\<open>draw\<close> binds the index buffer whenever one is present. With VAO support
  the code does not: the index buffer is bound only inside \<^verbatim>\<open>registerVAO\<close>, at the
  first draw with a program id (\<open>index_buffer_binding\<close> above). The header comment of
  \<^verbatim>\<open>GLPrimitive.ts\<close> notes that a change of the index buffer, the vertex buffers or the
  vertex elements ought to update the VAO, and does not. Here the primitive is drawn once
  without index buffer, which registers VAO 0, and once more after it received index
  buffer 9: the second call issues \<open>DrawElements\<close> with VAO 0 bound, and buffer 9 has not
  been bound in the whole run.
\<close>

theorem index_buffer_not_bound_after_registration:
  "indexBufferBinding (examplePrimitive 0)
     = Some \<lparr>IndexBufferBinding.buffer = \<lparr>nativeBuffer = 9\<rparr>\<rparr>
   \<and> gl (stateAfter (drawAll [(plainPrimitive, exampleShader, exampleSub),
                              (examplePrimitive 0, exampleShader, exampleSub)]
                       (construct False True [] 0 [] plainPrimitive))) =
       [CreateVertexArray 0, BindVertexArray (Some 0),
        BindBuffer ARRAY_BUFFER (Some 7), EnableVertexAttribArray 0,
        VertexAttribPointer 0 3 5126 False 12 0, BindBuffer ARRAY_BUFFER None,
        BindVertexArray None, BindBuffer ELEMENT_ARRAY_BUFFER None, DisableVertexAttribArray 0,
        BindVertexArray (Some 0), DrawArrays 4 0 36, BindVertexArray None,
        BindVertexArray (Some 0), DrawElements 4 36 5123 0, BindVertexArray None]
   \<and> BindBuffer ELEMENT_ARRAY_BUFFER (Some 9)
       \<notin> set (gl (stateAfter (drawAll [(plainPrimitive, exampleShader, exampleSub),
                                       (examplePrimitive 0, exampleShader, exampleSub)]
                                (construct False True [] 0 [] plainPrimitive))))"
proof -
  have "gl (stateAfter (drawAll [(plainPrimitive, exampleShader, exampleSub),
                              (examplePrimitive 0, exampleShader, exampleSub)]
                       (construct False True [] 0 [] plainPrimitive))) =
       [CreateVertexArray 0, BindVertexArray (Some 0),
        BindBuffer ARRAY_BUFFER (Some 7), EnableVertexAttribArray 0,
        VertexAttribPointer 0 3 5126 False 12 0, BindBuffer ARRAY_BUFFER None,
        BindVertexArray None, BindBuffer ELEMENT_ARRAY_BUFFER None, DisableVertexAttribArray 0,
        BindVertexArray (Some 0), DrawArrays 4 0 36, BindVertexArray None,
        BindVertexArray (Some 0), DrawElements 4 36 5123 0, BindVertexArray None]"
    by (simp add: construct_def draw_register draw_cached andThen_def Map_has_def Map_get_def
        issueCalls_def elementBind_def effective_def bindable_def throwsAt_def
        plainPrimitive_def examplePrimitive_def attributes_def objectPrototypeNames_def Array_at_def exampleShader_def exampleSub_def
        exampleElement_def)
  then show ?thesis by (simp add: examplePrimitive_def attributes_def objectPrototypeNames_def Array_at_def)
qed

text \<open>
  Claim C7. A run of \<^verbatim>\<open>draw\<close> calls, whether it completes or ends in a throw, only
  appends to the \<^verbatim>\<open>vao\<close> map: the map at the end is the map at the start followed by
  new entries, every key keeps its VAO, the set of keys grows, and no
  \<^verbatim>\<open>deleteVertexArray\<close> is issued. \<^verbatim>\<open>destroy\<close> issues the deletions on the context and
  leaves the map as it is.
\<close>

theorem vao_cache_never_evicts:
  "(\<exists>added. vao (stateAfter (drawAll steps s)) = vao s @ added)
   \<and> (\<forall>k v. Map_get (vao s) k = Some v \<longrightarrow>
                Map_get (vao (stateAfter (drawAll steps s))) k = Some v)
   \<and> set (map fst (vao s)) \<subseteq> set (map fst (vao (stateAfter (drawAll steps s))))
   \<and> filter isDeleteVertexArray (newCalls s (stateAfter (drawAll steps s))) = []
   \<and> vao (destroy s) = vao s
   \<and> newCalls s (destroy s) = (if useVao s then map (\<lambda>(k, v). DeleteVertexArray v) (vao s) else [])"
proof (intro conjI allI impI)
  note all = drawAll_steps[of steps s]
  then have v: "vao (stateAfter (drawAll steps s))
                  = vao s @ drop (length (vao s)) (vao (stateAfter (drawAll steps s)))"
    by blast
  then show "\<exists>added. vao (stateAfter (drawAll steps s)) = vao s @ added" ..
  show "set (map fst (vao s)) \<subseteq> set (map fst (vao (stateAfter (drawAll steps s))))"
    by (subst v) auto
  show "filter isDeleteVertexArray (newCalls s (stateAfter (drawAll steps s))) = []"
    using all by blast
  show "Map_get (vao (stateAfter (drawAll steps s))) k = Some v'"
    if "Map_get (vao s) k = Some v'" for k v'
    using v that by (metis Map_get_append_Some)
  show "vao (destroy s) = vao s" by (simp add: destroy_def)
  show "newCalls s (destroy s) = (if useVao s then map (\<lambda>(k, v). DeleteVertexArray v) (vao s) else [])"
    by (simp add: destroy_def newCalls_def)
qed

text \<open>C7 on a run that starts with VAO 5 cached for program 1.\<close>

theorem vao_cache_never_evicts_witness:
  "Map_get (vao (stateAfter (drawAll exampleSteps
      ((construct True True [] 8 [] (examplePrimitive 0))\<lparr>vao := [(1, 5)]\<rparr>)))) 1 = Some 5
   \<and> vao (destroy ((construct True True [] 8 [] (examplePrimitive 0))\<lparr>vao := [(1, 5)]\<rparr>))
       = [(1, 5)]"
proof -
  let ?s = "(construct True True [] 8 [] (examplePrimitive 0))\<lparr>vao := [(1, 5)]\<rparr>"
  have "Map_get (vao ?s) 1 = Some 5" by (simp add: Map_get_def)
  with vao_cache_never_evicts[of exampleSteps ?s] show ?thesis
    by simp
qed

text \<open>
  Claim C8. A returning \<^verbatim>\<open>draw\<close>, on any branch, ends with the bindings reset. With VAO
  support its last call binds the null VAO. Without it, the calls are those of
  \<^verbatim>\<open>bindBufferAndAttrib\<close>, which end by binding null to \<open>ARRAY_BUFFER\<close>, then those of
  the middle part, which bind nothing to \<open>ARRAY_BUFFER\<close>, then one disable call for each
  location in \<^verbatim>\<open>attribLocArray\<close>; and the locations enabled during the whole call are
  exactly that array. \<^verbatim>\<open>disableAttrib\<close> issues one disable call for each recorded
  location, in order.
\<close>

theorem draw_restores_bindings:
  assumes "draw sp sub s = Returned s'"
  shows "(useVao s \<longrightarrow> newCalls s s' \<noteq> [] \<and> last (newCalls s s') = BindVertexArray None)
    \<and> (\<not> useVao s \<longrightarrow>
         (\<exists>s1 locs. bindBufferAndAttrib sp s = Returned s1
            \<and> attribLocArray s1 = Some locs \<and> attribLocArray s' = Some locs
            \<and> last (newCalls s s1) = BindBuffer ARRAY_BUFFER None
            \<and> newCalls s s' = newCalls s s1 @ newCalls s1 (drawIssue sub s1)
                               @ map DisableVertexAttribArray locs
            \<and> enabledLocs (newCalls s s') = locs
            \<and> filter isArrayBufferBind (newCalls s1 (drawIssue sub s1)) = []))
    \<and> (\<forall>t locs. attribLocArray t = Some locs \<longrightarrow>
          disableAttrib t = Returned (t\<lparr>gl := gl t @ map DisableVertexAttribArray locs\<rparr>))"
proof (intro conjI)
  show "useVao s \<longrightarrow> newCalls s s' \<noteq> [] \<and> last (newCalls s s') = BindVertexArray None"
    using assms by (cases rule: draw_cases[of s sp sub]) (auto simp: newCalls_def)
  show "\<forall>t locs. attribLocArray t = Some locs \<longrightarrow>
          disableAttrib t = Returned (t\<lparr>gl := gl t @ map DisableVertexAttribArray locs\<rparr>)"
    by (simp add: disableAttrib_def)
  show "\<not> useVao s \<longrightarrow>
         (\<exists>s1 locs. bindBufferAndAttrib sp s = Returned s1
            \<and> attribLocArray s1 = Some locs \<and> attribLocArray s' = Some locs
            \<and> last (newCalls s s1) = BindBuffer ARRAY_BUFFER None
            \<and> newCalls s s' = newCalls s s1 @ newCalls s1 (drawIssue sub s1)
                               @ map DisableVertexAttribArray locs
            \<and> enabledLocs (newCalls s s') = locs
            \<and> filter isArrayBufferBind (newCalls s1 (drawIssue sub s1)) = [])"
  proof (cases rule: draw_cases[of s sp sub])
    case direct
    with assms show ?thesis
      by (simp add: bindBufferAndAttrib_eq newCalls_drawIssue)
         (auto simp: newCalls_def attribCalls_enabled reached_bindable)
  qed (use assms in simp_all)
qed

text \<open>C8 on the branch without instancing support: location 0 is enabled and disabled again.\<close>

theorem draw_restores_bindings_witness:
  "\<exists>s'. draw exampleShader exampleSub (construct False False [] 0 [] (examplePrimitive 2))
          = Returned s'
     \<and> enabledLocs (newCalls (construct False False [] 0 [] (examplePrimitive 2)) s') = [0]
     \<and> attribLocArray s' = Some [0]
     \<and> newCalls (construct False False [] 0 [] (examplePrimitive 2)) s' =
         [BindBuffer ARRAY_BUFFER (Some 7), EnableVertexAttribArray 0,
          VertexAttribPointer 0 3 5126 False 12 0, BindBuffer ARRAY_BUFFER None,
          DisableVertexAttribArray 0]"
proof -
  let ?s = "construct False False [] 0 [] (examplePrimitive 2)"
  from example_returns obtain s' where h: "draw exampleShader exampleSub ?s = Returned s'"
    by blast
  have "\<not> useVao ?s" by (simp add: construct_def)
  with draw_restores_bindings[OF h] obtain s1 locs where
    "bindBufferAndAttrib exampleShader ?s = Returned s1"
    "attribLocArray s1 = Some locs" "attribLocArray s' = Some locs"
    "newCalls ?s s' = newCalls ?s s1 @ newCalls s1 (drawIssue exampleSub s1)
                               @ map DisableVertexAttribArray locs"
    "enabledLocs (newCalls ?s s') = locs"
    by blast
  with example_bind[of 2] have "enabledLocs (newCalls ?s s') = [0]"
    and "attribLocArray s' = Some [0]"
    and "newCalls ?s s' =
         [BindBuffer ARRAY_BUFFER (Some 7), EnableVertexAttribArray 0,
          VertexAttribPointer 0 3 5126 False 12 0, BindBuffer ARRAY_BUFFER None,
          DisableVertexAttribArray 0]"
    by (auto simp: newCalls_drawIssue issueCalls_def)
       (simp_all add: newCalls_def construct_def examplePrimitive_def attributes_def objectPrototypeNames_def Array_at_def)
  with h show ?thesis by blast
qed

text \<open>
  Claim C9: an attribute without location is skipped silently and an attribute name
  without vertex element is skipped with a warning, the remaining attributes being
  configured and a draw call issued all the same. The loop does skip an attribute
  without location, and one whose name yields \<^verbatim>\<open>undefined\<close> in \<^verbatim>\<open>_vertexElementMap\<close>, the
  latter with the warning (\<open>bindBufferAndAttrib_skips\<close>, \<open>bindBufferAndAttrib_records\<close>
  above). But it tests \<^verbatim>\<open>attributes[name]\<close> for truthiness only, and \<^verbatim>\<open>_vertexElementMap\<close>
  is a plain object: for a name of \<^verbatim>\<open>Object.prototype\<close> that has no vertex element the
  read yields the inherited member, the branch for a vertex element is taken, and
  destructuring \<^verbatim>\<open>vertexBufferBindings[element.bindingIndex]\<close> throws. Here the shader
  program has the attributes \<open>POSITION\<close> and \<open>constructor\<close> and the primitive has no
  vertex element \<open>constructor\<close>: \<^verbatim>\<open>bindBufferAndAttrib\<close> configures \<open>POSITION\<close> and
  throws at \<open>constructor\<close> with nothing logged, and \<^verbatim>\<open>draw\<close> throws with it, having
  issued no draw call and left location 0 enabled and buffer 7 bound.
\<close>

theorem bindBufferAndAttrib_throws_on_inherited_name:
  "vertexElementMap (examplePrimitive 0) ''constructor'' = None
   \<and> bindBufferAndAttrib constructorShader (construct False False [] 0 [] (examplePrimitive 0)) =
       Threw TypeError
         \<lparr>primitive = examplePrimitive 0, attribLocArray = Some [0],
          canUseInstancedArrays = False,
          gl = [BindBuffer ARRAY_BUFFER (Some 7), EnableVertexAttribArray 0,
                VertexAttribPointer 0 3 5126 False 12 0],
          glNextVertexArray = 0, vao = [], useVao = False, logger = []\<rparr>
   \<and> draw constructorShader exampleSub (construct False False [] 0 [] (examplePrimitive 0)) =
       Threw TypeError
         \<lparr>primitive = examplePrimitive 0, attribLocArray = Some [0],
          canUseInstancedArrays = False,
          gl = [BindBuffer ARRAY_BUFFER (Some 7), EnableVertexAttribArray 0,
                VertexAttribPointer 0 3 5126 False 12 0],
          glNextVertexArray = 0, vao = [], useVao = False, logger = []\<rparr>"
proof -
  have b: "bindBufferAndAttrib constructorShader (construct False False [] 0 [] (examplePrimitive 0)) =
       Threw TypeError
         \<lparr>primitive = examplePrimitive 0, attribLocArray = Some [0],
          canUseInstancedArrays = False,
          gl = [BindBuffer ARRAY_BUFFER (Some 7), EnableVertexAttribArray 0,
                VertexAttribPointer 0 3 5126 False 12 0],
          glNextVertexArray = 0, vao = [], useVao = False, logger = []\<rparr>"
    by (simp add: bindBufferAndAttrib_def andThen_def construct_def Let_def glCall_def
        constructorShader_def attributes_def objectPrototypeNames_def Array_at_def
        examplePrimitive_def exampleElement_def)
  have d: "draw constructorShader exampleSub (construct False False [] 0 [] (examplePrimitive 0))
             = andThen (bindBufferAndAttrib constructorShader
                          (construct False False [] 0 [] (examplePrimitive 0)))
                 (\<lambda>s1. drawUnbind (drawIssue exampleSub s1))"
    by (simp add: draw_def drawBind_def construct_def)
  show ?thesis
    by (simp add: d b andThen_def) (simp add: examplePrimitive_def)
qed

text \<open>
  Claim C10. With VAO support \<^verbatim>\<open>destroy\<close> issues one \<^verbatim>\<open>deleteVertexArray\<close> for each
  entry of the map, in the order of the map, so every cached VAO is deleted; without it
  \<^verbatim>\<open>destroy\<close> changes nothing. In both cases it issues only deletions and changes no
  field but the record of calls. It cannot throw: no step of it can, so it has a state
  as result and not an outcome.
\<close>

theorem destroy_deletes_cached_vaos:
  "(useVao s \<longrightarrow>
      newCalls s (destroy s) = map (\<lambda>(k, v). DeleteVertexArray v) (vao s)
      \<and> length (newCalls s (destroy s)) = length (vao s)
      \<and> (\<forall>k v. Map_get (vao s) k = Some v \<longrightarrow> DeleteVertexArray v \<in> set (newCalls s (destroy s))))
   \<and> (\<not> useVao s \<longrightarrow> destroy s = s)
   \<and> destroy s = s\<lparr>gl := gl s @ newCalls s (destroy s)\<rparr>
   \<and> list_all isDeleteVertexArray (newCalls s (destroy s))"
proof (intro conjI impI allI)
  assume u: "useVao s"
  then show "newCalls s (destroy s) = map (\<lambda>(k, v). DeleteVertexArray v) (vao s)"
    by (simp add: destroy_def newCalls_def)
  from u show "length (newCalls s (destroy s)) = length (vao s)"
    by (simp add: destroy_def newCalls_def)
  fix k v assume "Map_get (vao s) k = Some v"
  then have "(k, v) \<in> set (vao s)" by (simp add: Map_get_def map_of_SomeD)
  with u show "DeleteVertexArray v \<in> set (newCalls s (destroy s))"
    by (force simp: destroy_def newCalls_def)
next
  assume "\<not> useVao s"
  then show "destroy s = s" by (simp add: destroy_def)
next
  show "destroy s = s\<lparr>gl := gl s @ newCalls s (destroy s)\<rparr>"
    by (simp add: destroy_def newCalls_def)
  show "list_all isDeleteVertexArray (newCalls s (destroy s))"
    by (auto simp: destroy_def newCalls_def list_all_iff)
qed

text \<open>C10 on a map of two entries, and on an object without VAO support.\<close>

theorem destroy_deletes_cached_vaos_witness:
  "newCalls ((construct True True [] 8 [] (examplePrimitive 0))\<lparr>vao := [(1, 5), (2, 6)]\<rparr>)
     (destroy ((construct True True [] 8 [] (examplePrimitive 0))\<lparr>vao := [(1, 5), (2, 6)]\<rparr>))
     = [DeleteVertexArray 5, DeleteVertexArray 6]
   \<and> destroy (construct True False [] 8 [] (examplePrimitive 0))
       = construct True False [] 8 [] (examplePrimitive 0)"
  using destroy_deletes_cached_vaos[of "(construct True True [] 8 [] (examplePrimitive 0))\<lparr>vao := [(1, 5), (2, 6)]\<rparr>"]
    destroy_deletes_cached_vaos[of "construct True False [] 8 [] (examplePrimitive 0)"]
  by (simp add: construct_def)

end
